theory Spec2Isabelle
  imports Complex_Main
begin

text \<open>
  A model of the Arduino extension: the diagnostics of the language server, the tree
  items of the explorer view and the client of the external program \<open>arduino-cli\<close>,
  each function translated from its TypeScript source, followed by the properties
  proved of them. What the code takes from outside (Node's \<open>path\<close> module,
  \<open>JSON.parse\<close>, the file system, the external program, constants declared in other
  files) is a parameter of the model; what it throws is a value.
\<close>

section \<open>JavaScript values used by the server and the client\<close>

text \<open>
  A JavaScript string is modelled as a \<^typ>\<open>string\<close>; \<open>s.charAt(i)\<close> is the
  one-character string at index \<open>i\<close>, or the empty string when \<open>i\<close> is out of range.
\<close>

definition charAt :: "string \<Rightarrow> nat \<Rightarrow> string" where
  "charAt s i = (if i < length s then [s ! i] else [])"

section \<open>Diagnostics (server/src/arduino-diagnostic.ts)\<close>

text \<open>
  The two string enums of the namespace \<open>ArduinoDiagnostic\<close>. At run time a member of a
  TypeScript string enum is its string value, which \<open>Error_value\<close> and
  \<open>Information_value\<close> give.
\<close>

datatype Error =
    E001_INVALID_CLI_VERSION
  | E002_INVALID_BOARD
  | E003_INVALID_PLATFORM_VERSION
  | E004_INVALID_PORT

datatype Information =
    I002_INVALID_BOARD_NAME_UPDATE
  | I003_INVALID_BOARD_NAME_INSERT

fun Error_value :: "Error \<Rightarrow> string" where
  "Error_value E001_INVALID_CLI_VERSION = ''E001''"
| "Error_value E002_INVALID_BOARD = ''E002''"
| "Error_value E003_INVALID_PLATFORM_VERSION = ''E003''"
| "Error_value E004_INVALID_PORT = ''E004''"

fun Information_value :: "Information \<Rightarrow> string" where
  "Information_value I002_INVALID_BOARD_NAME_UPDATE = ''I002''"
| "Information_value I003_INVALID_BOARD_NAME_INSERT = ''I003''"

text \<open>The severities of the language-server protocol that \<open>codeToSeverity\<close> returns.\<close>

datatype DiagnosticSeverity = SevError | SevWarning | SevInformation | SevHint

text \<open>
  \<open>codeToSeverity\<close> switches on \<open>code.charAt(0)\<close>; the \<open>default\<close> branch falls through to
  \<open>return undefined\<close>, which is \<open>None\<close> here.
\<close>

definition codeToSeverity :: "string \<Rightarrow> DiagnosticSeverity option" where
  "codeToSeverity code =
     (let c = charAt code 0 in
      if c = ''E'' then Some SevError
      else if c = ''W'' then Some SevWarning
      else if c = ''I'' then Some SevInformation
      else if c = ''H'' then Some SevHint
      else None)"

section \<open>Explorer tree items (client/src/explorer/arduino-item.ts)\<close>

text \<open>
  Modelled from the spec: the enum \<open>ArduinoEntryStatus\<close> and the interface \<open>IArduinoEntry\<close>
  are declared in \<open>arduino-entry.ts\<close>, which is not among the sources. The spec gives a
  project entry a workspace folder, a parsed configuration, a list of diagnostics and a
  status that is one of \<open>ok\<close>, \<open>candidate\<close> and \<open>error\<close>; these are also the three members
  that \<open>arduino-item.ts\<close> names. The switch of \<open>statusToString\<close> has a \<open>default\<close> branch
  besides them, so a fourth constructor stands for any other value that a status may
  have at run time. The fields below are the ones that file reads. A field that may be
  \<open>undefined\<close> is a \<^typ>\<open>string option\<close>.
\<close>

datatype ArduinoEntryStatus = ok | candidate | error | other_status nat

record Project =
  project_name :: string
  project_fsPath :: string

record ConfigModel =
  model_alias :: "string option"
  model_port :: "string option"
  model_board_name :: "string option"

record IArduinoEntry =
  project :: Project
  model :: ConfigModel
  entry_status :: ArduinoEntryStatus
  errors :: "string list"

text \<open>
  \<open>errors\<close> holds the \<open>message\<close> of each diagnostic of the entry, the only field of a
  diagnostic the tree item reads.

  What the module takes from its surroundings: its own directory \<open>__dirname\<close>, Node's
  \<open>path.resolve\<close>, and the run-time value of each status as a template literal prints it.
\<close>

record client_env =
  module_dirname :: string
  path_resolve :: "string list \<Rightarrow> string"
  status_text :: "ArduinoEntryStatus \<Rightarrow> string"

text \<open>A template literal prints \<open>undefined\<close> for a missing value.\<close>

definition template :: "string option \<Rightarrow> string" where
  "template v = (case v of None \<Rightarrow> ''undefined'' | Some s \<Rightarrow> s)"

definition iconFolder :: "client_env \<Rightarrow> string list" where
  "iconFolder C = [module_dirname C, ''..'', ''..'', ''..'', ''fileicons'']"

definition resourceFolder :: "client_env \<Rightarrow> string list" where
  "resourceFolder C = [module_dirname C, ''..'', ''..'', ''..'', ''resources'']"

definition iconFolderLight :: "client_env \<Rightarrow> string list list" where
  "iconFolderLight C = [iconFolder C @ [''light''], resourceFolder C @ [''light'']]"

definition iconFolderDark :: "client_env \<Rightarrow> string list list" where
  "iconFolderDark C = [iconFolder C @ [''dark''], resourceFolder C @ [''dark'']]"

definition iconFileLight :: "client_env \<Rightarrow> string" where
  "iconFileLight C = path_resolve C (iconFolderLight C ! 0 @ [''aclabarduino_file.svg''])"

definition iconFileDark :: "client_env \<Rightarrow> string" where
  "iconFileDark C = path_resolve C (iconFolderDark C ! 0 @ [''aclabarduino_file.svg''])"

definition iconFileNotExistLight :: "client_env \<Rightarrow> string" where
  "iconFileNotExistLight C =
     path_resolve C (iconFolderLight C ! 0 @ [''aclabarduino_file_not_exist.svg''])"

definition iconFileNotExistDark :: "client_env \<Rightarrow> string" where
  "iconFileNotExistDark C =
     path_resolve C (iconFolderDark C ! 0 @ [''aclabarduino_file_not_exist.svg''])"

text \<open>\<open>statusToString\<close>: the three cases of the switch, then its \<open>default\<close> branch.\<close>

fun statusToString :: "ArduinoEntryStatus \<Rightarrow> string" where
  "statusToString ok = []"
| "statusToString candidate = ''<candidate>''"
| "statusToString error = ''<error>''"
| "statusToString (other_status v) = ''<checking>''"

datatype TreeItemCollapsibleState = CollapsibleNone | Collapsed | Expanded

record Command =
  command_id :: string
  title :: string
  arguments :: "Project list"

record IconPath =
  light :: string
  dark :: string

record TreeItem =
  label :: string
  collapsibleState :: TreeItemCollapsibleState
  description :: string
  tooltip :: string
  command :: Command
  iconPath :: IconPath
  contextValue :: string

text \<open>\<open>xs.join(sep)\<close> of JavaScript.\<close>

fun join_with :: "string \<Rightarrow> string list \<Rightarrow> string" where
  "join_with sep [] = []"
| "join_with sep [x] = x"
| "join_with sep (x # y # ys) = x @ sep @ join_with sep (y # ys)"

text \<open>
  The constructor of \<open>ArduinoTreeItem\<close>: the two arguments of \<open>super\<close>, then the field
  initialisers in the order of the class body.
\<close>

definition ArduinoTreeItem :: "client_env \<Rightarrow> IArduinoEntry \<Rightarrow> TreeItem" where
  "ArduinoTreeItem C entry =
     \<lparr> label =
         (case model_alias (model entry) of
            Some a \<Rightarrow> if a \<noteq> [] then a else project_name (project entry)
          | None \<Rightarrow> project_name (project entry)),
       collapsibleState =
         (if entry_status entry = ok then Collapsed else CollapsibleNone),
       description =
         template (model_port (model entry)) @ '' '' @ statusToString (entry_status entry)
           @ '' ['' @ status_text C (entry_status entry) @ '']'',
       tooltip =
         (if entry_status entry = error
          then join_with [CHR 0x0A] (errors entry)
          else template (model_board_name (model entry)) @ '' <''
                 @ project_fsPath (project entry) @ ''>''),
       command =
         (if entry_status entry = ok
          then \<lparr> command_id = ''arduinoExplorer.openConfiguration'', title = ''Open'',
                 arguments = [project entry] \<rparr>
          else if entry_status entry = candidate
          then \<lparr> command_id = ''arduinoExplorer.initialize'', title = ''Initialize'',
                 arguments = [project entry] \<rparr>
          else \<lparr> command_id = ''arduinoExplorer.checkProject'', title = ''Check'',
                 arguments = [project entry] \<rparr>),
       iconPath =
         \<lparr> light = (if entry_status entry = ok
                     then iconFileLight C else iconFileNotExistLight C),
           dark = (if entry_status entry = ok
                    then iconFileDark C else iconFileNotExistDark C) \<rparr>,
       contextValue =
         (if entry_status entry = ok then ''aclProject'' else ''candidateProject'') \<rparr>"

text \<open>
  A concrete client environment, an entry in the error state and the same entry in the
  ok state, to run the model on.
\<close>

definition demo_client_env :: client_env where
  "demo_client_env =
     \<lparr> module_dirname = ''/ext/out/explorer'',
       path_resolve = join_with ''/'',
       status_text = statusToString \<rparr>"

definition demo_error_entry :: IArduinoEntry where
  "demo_error_entry =
     \<lparr> project = \<lparr> project_name = ''blink'', project_fsPath = ''/home/u/blink'' \<rparr>,
       model = \<lparr> model_alias = None, model_port = Some ''COM3'', model_board_name = Some ''Arduino Uno'' \<rparr>,
       entry_status = error,
       errors = [''Invalid board (FQBN).'', ''Port required.''] \<rparr>"

definition demo_ok_entry :: IArduinoEntry where
  "demo_ok_entry = demo_error_entry\<lparr>entry_status := ok, errors := []\<rparr>"

section \<open>The arduino-cli client (server/src/arduino-cli.ts)\<close>

subsection \<open>Values, exceptions and the surroundings of the module\<close>

text \<open>
  The result of \<open>JSON.parse\<close> has the type \<open>any\<close>: it is a JSON value. \<open>truthy\<close> is
  the test JavaScript applies to it in \<open>if (v)\<close> and \<open>!v\<close>. The entries of \<open>JObj\<close> are
  the properties of the object, each key once.
\<close>

datatype json =
    JNull
  | JBool bool
  | JNum rat
  | JStr string
  | JArr "json list"
  | JObj "(string \<times> json) list"

fun truthy :: "json \<Rightarrow> bool" where
  "truthy JNull = False"
| "truthy (JBool b) = b"
| "truthy (JNum n) = (n \<noteq> 0)"
| "truthy (JStr s) = (s \<noteq> [])"
| "truthy (JArr xs) = True"
| "truthy (JObj kvs) = True"

text \<open>An optional value: \<open>None\<close> is \<open>undefined\<close>, which is falsy, as is the empty string.\<close>

definition truthy_json :: "json option \<Rightarrow> bool" where
  "truthy_json v = (case v of None \<Rightarrow> False | Some j \<Rightarrow> truthy j)"

definition truthy_string :: "string option \<Rightarrow> bool" where
  "truthy_string v = (case v of None \<Rightarrow> False | Some s \<Rightarrow> s \<noteq> [])"

text \<open>
  The exceptions that the modelled code can meet: \<open>JSON.parse\<close> throws a \<open>SyntaxError\<close>,
  reading a property of \<open>null\<close> or \<open>undefined\<close> throws a \<open>TypeError\<close>, and
  \<open>readFileSync\<close> throws a system error when the path cannot be read as a file.
\<close>

datatype js_error = SyntaxError | TypeError | SystemError

datatype fs_entry = File string | Directory

text \<open>
  What \<open>spawnSync\<close> returns. When the process cannot be started, \<open>stdout\<close> and \<open>stderr\<close>
  are \<open>null\<close>; otherwise they are the captured streams, and \<open>status\<close> is the exit code,
  or \<open>null\<close> when a signal ended the process.
\<close>

datatype SpawnSyncReturns =
    Spawn_failed
  | Spawn_done "int option" string string

text \<open>
  The surroundings of the module, as one record of parameters: Node's \<open>path.join\<close> and
  \<open>path.dirname\<close>, \<open>JSON.parse\<close> (\<open>None\<close> when it throws), the constants
  \<open>CONFIG_SERVER_DEFAULT\<close> and \<open>ACL_HOME\<close> (declared in files that are not among the
  sources), \<open>process.platform\<close>, the file system, and the external program:
  \<open>spawnSync E n bin params\<close> is what the \<open>n\<close>-th run of a subprocess in this server
  process returns, so the program may answer the same command differently each time.
\<close>

record env =
  path_join :: "string list \<Rightarrow> string"
  path_dirname :: "string \<Rightarrow> string"
  JSON_parse :: "string \<Rightarrow> json option"
  CONFIG_SERVER_DEFAULT :: json
  ACL_HOME :: string
  platform :: string
  files :: "string \<Rightarrow> fs_entry option"
  spawnSync :: "nat \<Rightarrow> string \<Rightarrow> string list \<Rightarrow> SpawnSyncReturns"

definition existsSync :: "env \<Rightarrow> string \<Rightarrow> bool" where
  "existsSync E p = (p \<noteq> [] \<and> files E p \<noteq> None)"

definition readFileSync :: "env \<Rightarrow> string \<Rightarrow> js_error + string" where
  "readFileSync E p =
     (case files E p of
        Some (File content) \<Rightarrow> Inr content
      | Some Directory \<Rightarrow> Inl SystemError
      | None \<Rightarrow> Inl SystemError)"

subsection \<open>Options and arguments\<close>

record WorkspaceFolder =
  uri :: string
  name :: string

text \<open>The field \<open>logFile?: boolean | string\<close>.\<close>

datatype logFile_value =
    LogFile_undefined
  | LogFile_boolean bool
  | LogFile_string string

record ArduinoCliOptions =
  workspaceFolder :: "WorkspaceFolder option"
  configFile :: "string option"
  debug :: bool
  verbose :: bool
  logFile :: logFile_value
  arduinCliBin :: "string option"

text \<open>
  \<open>Partial<ArduinoCliOptions>\<close>: every field may be missing. A missing \<open>debug\<close> or
  \<open>verbose\<close> gets the default \<open>false\<close> of \<open>normalizeOptions\<close>; one passed as
  \<open>undefined\<close> stays \<open>undefined\<close>, which every later test reads as \<open>false\<close> too.
\<close>

record Partial_ArduinoCliOptions =
  p_workspaceFolder :: "WorkspaceFolder option"
  p_configFile :: "string option"
  p_debug :: "bool option"
  p_verbose :: "bool option"
  p_logFile :: "logFile_value option"
  p_arduinCliBin :: "string option"

definition FORMAT_JSON :: "string list" where
  "FORMAT_JSON = [''--format'', ''json'']"

definition FORMAT_TEXT :: "string list" where
  "FORMAT_TEXT = [''--format'', ''text'']"

text \<open>
  \<open>normalizeOptions\<close>: the defaults overwritten by the fields of \<open>args\<close> (spreading
  \<open>undefined\<close> adds nothing), then the two adjustments that need a workspace folder.
\<close>

definition normalizeOptions ::
  "env \<Rightarrow> Partial_ArduinoCliOptions option \<Rightarrow> ArduinoCliOptions" where
  "normalizeOptions E args =
     (let values0 =
            (case args of
               None \<Rightarrow>
                 \<lparr> workspaceFolder = None, configFile = None, debug = False,
                   verbose = False, logFile = LogFile_undefined, arduinCliBin = None \<rparr>
             | Some a \<Rightarrow>
                 \<lparr> workspaceFolder = p_workspaceFolder a,
                   configFile = p_configFile a,
                   debug = (case p_debug a of None \<Rightarrow> False | Some b \<Rightarrow> b),
                   verbose = (case p_verbose a of None \<Rightarrow> False | Some b \<Rightarrow> b),
                   logFile = (case p_logFile a of None \<Rightarrow> LogFile_undefined | Some l \<Rightarrow> l),
                   arduinCliBin = p_arduinCliBin a \<rparr>);
          values1 =
            (case workspaceFolder values0 of
               Some folder \<Rightarrow>
                 if \<not> truthy_string (configFile values0)
                 then values0\<lparr>configFile :=
                        Some (path_join E [uri folder, ''.vscode'', ''aclabarduino.json''])\<rparr>
                 else values0
             | None \<Rightarrow> values0);
          values2 =
            (case workspaceFolder values1 of
               Some folder \<Rightarrow>
                 if debug values1
                 then (case logFile values1 of
                         LogFile_string l \<Rightarrow>
                           values1\<lparr>logFile := LogFile_string (path_join E [uri folder, l])\<rparr>
                       | LogFile_boolean b \<Rightarrow>
                           if b
                           then values1\<lparr>logFile := LogFile_string
                                  (path_join E
                                     [uri folder, ''arduino-cli-'' @ name folder @ ''.log''])\<rparr>
                           else values1
                       | LogFile_undefined \<Rightarrow> values1)
                 else values1
             | None \<Rightarrow> values1)
      in values2)"

text \<open>\<open>args.push(x)\<close> appends at the end.\<close>

definition push :: "'a list \<Rightarrow> 'a \<Rightarrow> 'a list" where
  "push xs x = xs @ [x]"

text \<open>What the template literal prints for \<open>runOptions.logFile\<close>.\<close>

fun logFile_text :: "logFile_value \<Rightarrow> string" where
  "logFile_text LogFile_undefined = ''undefined''"
| "logFile_text (LogFile_boolean b) = (if b then ''true'' else ''false'')"
| "logFile_text (LogFile_string l) = l"

definition normalizeArguments :: "env \<Rightarrow> ArduinoCliOptions \<Rightarrow> string list" where
  "normalizeArguments E runOptions =
     (let args0 = [];
          args1 =
            (case configFile runOptions of
               Some cf \<Rightarrow>
                 if cf \<noteq> []
                 then push (push args0 ''--config-file'')
                        (path_join E [path_dirname E cf, ''arduino-cli.yaml''])
                 else args0
             | None \<Rightarrow> args0);
          args2 =
            (if debug runOptions
             then push (push (push (push args1 ''--log-file'')
                    (logFile_text (logFile runOptions))) ''--log-level'') ''debug''
             else args1);
          args3 = (if verbose runOptions then push args2 ''--verbose'' else args2)
      in args3)"

subsection \<open>The client object, its configuration and its construction\<close>

text \<open>
  The fields of an \<open>ArduinoCli\<close> object. The private field \<open>_config\<close> is \<open>u_config\<close>
  here, and the static fields \<open>_instance\<close> and \<open>_initializationOptions\<close> are
  \<open>u_instance\<close> and \<open>u_initializationOptions\<close> below, since a name cannot begin with an
  underscore. Calls of the logger change nothing that the modelled code reads and are
  left out.
\<close>

record ArduinoCli =
  runArguments :: "string list"
  runOptions :: ArduinoCliOptions
  u_config :: "json option"

text \<open>
  The getter \<open>config\<close>. It loads only while \<open>_config\<close> is falsy. Whatever is thrown
  inside the \<open>try\<close> block (by \<open>readFileSync\<close> or by \<open>JSON.parse\<close>) is caught and
  logged, and \<open>_config\<close> keeps the value it had. The getter returns \<open>_config\<close> and the
  object as it has become.
\<close>

definition config :: "env \<Rightarrow> ArduinoCli \<Rightarrow> json option \<times> ArduinoCli" where
  "config E this =
     (let this' =
            (if \<not> truthy_json (u_config this)
             then (case configFile (runOptions this) of
                     Some cf \<Rightarrow>
                       if cf \<noteq> [] \<and> existsSync E cf
                       then (case readFileSync E cf of
                               Inl e \<Rightarrow> this
                             | Inr content \<Rightarrow>
                                 (case JSON_parse E content of
                                    None \<Rightarrow> this
                                  | Some j \<Rightarrow> this\<lparr>u_config := Some j\<rparr>))
                       else this\<lparr>u_config := Some (CONFIG_SERVER_DEFAULT E)\<rparr>
                   | None \<Rightarrow> this\<lparr>u_config := Some (CONFIG_SERVER_DEFAULT E)\<rparr>)
             else this)
      in (u_config this', this'))"

text \<open>
  \<open>findExecutable\<close>: \<open>release || "xxxx"\<close>, then the platform switch, which leaves
  \<open>cliPath\<close> empty on any other platform, then the existence test. The release is
  whatever value the caller passes, a string or not (\<open>None\<close> is \<open>undefined\<close>): the
  constructor passes a property of a parsed document. \<open>path.join\<close> throws a
  \<open>TypeError\<close> when an argument is not a string, so on the two platforms of the switch
  a truthy release that is not a string makes \<open>findExecutable\<close> throw.
\<close>

definition findExecutable :: "env \<Rightarrow> json option \<Rightarrow> js_error + string option" where
  "findExecutable E release =
     (let release' =
            (case release of
               Some v \<Rightarrow> if truthy v then v else JStr ''xxxx''
             | None \<Rightarrow> JStr ''xxxx'');
          cliPath =
            (if platform E = ''win32''
             then (case release' of
                     JStr r \<Rightarrow>
                       Inr (path_join E [ACL_HOME E, ''arduino-cli'', r, ''arduino-cli.exe''])
                   | _ \<Rightarrow> Inl TypeError)
             else if platform E = ''linux''
             then (case release' of
                     JStr r \<Rightarrow>
                       Inr (path_join E [ACL_HOME E, ''arduino-cli'', r, ''arduino-cli''])
                   | _ \<Rightarrow> Inl TypeError)
             else Inr [])
      in case cliPath of
           Inl e \<Rightarrow> Inl e
         | Inr p \<Rightarrow> Inr (if existsSync E p then Some p else None))"

text \<open>
  Reading the property \<open>cliVersion\<close> of a truthy value: the value of that key when
  the value is an object that has it, and \<open>undefined\<close> otherwise.
\<close>

definition cliVersion :: "json \<Rightarrow> json option" where
  "cliVersion j = (case j of JObj kvs \<Rightarrow> map_of kvs ''cliVersion'' | _ \<Rightarrow> None)"

text \<open>
  The private constructor: it stores its two arguments, and when the configuration it
  loads is truthy it reads the configuration again for the release and sets
  \<open>runOptions.arduinCliBin\<close>. What \<open>findExecutable\<close> throws leaves the constructor,
  and no object is built.
\<close>

definition new_ArduinoCli ::
  "env \<Rightarrow> ArduinoCliOptions \<Rightarrow> string list \<Rightarrow> js_error + ArduinoCli" where
  "new_ArduinoCli E opts args =
     (let this0 = \<lparr> runArguments = args, runOptions = opts, u_config = None \<rparr>;
          (c1, this1) = config E this0
      in if truthy_json c1
         then (let (c2, this2) = config E this1
               in case findExecutable E (Option.bind c2 cliVersion) of
                    Inl e \<Rightarrow> Inl e
                  | Inr bin \<Rightarrow>
                      Inr (this2\<lparr>runOptions := (runOptions this2)\<lparr>arduinCliBin := bin\<rparr>\<rparr>))
         else Inr this1)"

text \<open>
  The static side of the class. \<open>objects\<close> lists the \<open>ArduinoCli\<close> objects that the
  constructor has completed so far in the process; a reference to an object is its index
  in that list, so two references are the same object exactly when they are equal.
  \<open>constructions\<close> counts the runs of the constructor, completed or not.
\<close>

record statics =
  objects :: "ArduinoCli list"
  u_instance :: "nat option"
  u_initializationOptions :: "Partial_ArduinoCliOptions option"
  constructions :: nat

definition initial_statics :: statics where
  "initial_statics =
     \<lparr> objects = [], u_instance = None, u_initializationOptions = None,
       constructions = 0 \<rparr>"

text \<open>
  The static method \<open>instance\<close>, named \<open>ArduinoCli_instance\<close> here. An argument left
  out (or \<open>undefined\<close>) takes the default \<open>this._initializationOptions\<close>. The only
  \<open>new ArduinoCli\<close> of the class is here, the constructor being private. The call of
  \<open>registerMessages\<close>, whose body is not among the sources, comes after \<open>_instance\<close> is
  set and is left out. When the constructor throws, the exception leaves \<open>instance\<close>
  before either static field is assigned.
\<close>

definition ArduinoCli_instance ::
  "env \<Rightarrow> Partial_ArduinoCliOptions option \<Rightarrow> statics
     \<Rightarrow> (js_error + nat) \<times> statics" where
  "ArduinoCli_instance E arg st =
     (let initializationOptions =
            (case arg of None \<Rightarrow> u_initializationOptions st | Some a \<Rightarrow> Some a)
      in case u_instance st of
           Some r \<Rightarrow> (Inr r, st)
         | None \<Rightarrow>
             (let opts = normalizeOptions E initializationOptions;
                  args = normalizeArguments E opts;
                  st0 = st\<lparr>constructions := Suc (constructions st)\<rparr>
              in case new_ArduinoCli E opts args of
                   Inl e \<Rightarrow> (Inl e, st0)
                 | Inr obj \<Rightarrow>
                     (let r = length (objects st0);
                          st1 = st0\<lparr>objects := objects st0 @ [obj]\<rparr>;
                          st2 = st1\<lparr>u_instance := Some r\<rparr>;
                          st3 = st2\<lparr>u_initializationOptions := initializationOptions\<rparr>
                      in (Inr r, st3))))"



subsection \<open>Running the external program\<close>

text \<open>
  The field \<open>data\<close> of a result is \<open>undefined\<close> (\<open>None\<close>), the object
  \<open>{ text: [...] }\<close> or a parsed JSON value.
\<close>

datatype exec_data = Data_text "string list" | Data_json json

record IArduinoExec =
  status :: bool
  data :: "exec_data option"
  reason :: string

text \<open>
  Modelled from the spec: the class \<open>ACLCache\<close> of \<open>cache.ts\<close>, which is not among the
  sources. The spec describes it as a key to value lookup, keyed by command name and
  arguments, each entry being the last captured CLI result of its command signature,
  with an operation that clears all of it. The signature is kept as the pair of the name
  and the arguments; how \<open>getCacheId\<close> writes it as one string is not described.
  \<open>load\<close> gives \<open>None\<close> for the falsy value that a missing entry yields.
\<close>

type_synonym cacheId = "string \<times> string list"

type_synonym ACLCache = "cacheId \<Rightarrow> IArduinoExec option"

definition ACLCache_getCacheId :: "string \<Rightarrow> string list \<Rightarrow> cacheId" where
  "ACLCache_getCacheId cmd args = (cmd, args)"

definition ACLCache_load :: "ACLCache \<Rightarrow> cacheId \<Rightarrow> IArduinoExec option" where
  "ACLCache_load c k = c k"

definition ACLCache_write :: "ACLCache \<Rightarrow> cacheId \<Rightarrow> IArduinoExec \<Rightarrow> ACLCache" where
  "ACLCache_write c k v = c(k \<mapsto> v)"

definition ACLCache_clear :: "ACLCache \<Rightarrow> ACLCache" where
  "ACLCache_clear c = Map.empty"

text \<open>
  The state of the server process outside the client object: the cache, and the list of
  the subprocess runs made so far (executable and parameters), which numbers the runs
  for \<open>spawnSync\<close>.
\<close>

record sys =
  cache :: ACLCache
  spawned :: "(string \<times> string list) list"

definition initial_sys :: sys where
  "initial_sys = \<lparr> cache = Map.empty, spawned = [] \<rparr>"

text \<open>\<open>s.split(c)\<close> of JavaScript for a separator of one character.\<close>

fun split :: "char \<Rightarrow> string \<Rightarrow> string list" where
  "split c [] = [[]]"
| "split c (x # xs) =
     (if x = c then [] # split c xs
      else (case split c xs of [] \<Rightarrow> [[x]] | y # ys \<Rightarrow> (x # y) # ys))"

text \<open>The test \<open>extra[1] === "text"\<close>; an index out of range reads \<open>undefined\<close>.\<close>

definition extra_is_text :: "string list \<Rightarrow> bool" where
  "extra_is_text extra = (1 < length extra \<and> extra ! 1 = ''text'')"

text \<open>
  \<open>executeCommand\<close>. The result returned when no executable is set is
  \<open>not_informed\<close>. A result is \<open>Inr\<close>; \<open>Inl\<close> is the exception that leaves the
  function: the \<open>TypeError\<close> of \<open>command.stderr.toString()\<close> when the process could
  not be started, and the \<open>SyntaxError\<close> of \<open>JSON.parse(stdout)\<close>. The subprocess
  has run in both cases.
\<close>

definition not_informed :: IArduinoExec where
  "not_informed =
     \<lparr> status = False, data = None, reason = ''Arduino-CLI not informed'' \<rparr>"

definition executeCommand ::
  "env \<Rightarrow> ArduinoCli \<Rightarrow> string \<Rightarrow> string list \<Rightarrow> string list \<Rightarrow> sys
     \<Rightarrow> (js_error + IArduinoExec) \<times> sys" where
  "executeCommand E this commandCli args extra s =
     (case arduinCliBin (runOptions this) of
        None \<Rightarrow> (Inr not_informed, s)
      | Some bin \<Rightarrow>
          if length bin = 0 then (Inr not_informed, s)
          else
            (let params = [commandCli] @ filter (\<lambda>v. length v > 0) args
                            @ runArguments this @ extra;
                 cmd = spawnSync E (length (spawned s)) bin params;
                 s' = s\<lparr>spawned := spawned s @ [(bin, params)]\<rparr>
             in case cmd of
                  Spawn_failed \<Rightarrow> (Inl TypeError, s')
                | Spawn_done code out err \<Rightarrow>
                    if length out = 0
                    then (Inr \<lparr> status = (length err = 0), data = None,
                                reason = err \<rparr>, s')
                    else if extra_is_text extra
                    then (Inr \<lparr> status = (length err = 0),
                                data = Some (Data_text (split (CHR 0x0D) out)),
                                reason = err \<rparr>, s')
                    else (case JSON_parse E out of
                            None \<Rightarrow> (Inl SyntaxError, s')
                          | Some j \<Rightarrow>
                              (Inr \<lparr> status = (length err = 0),
                                     data = Some (Data_json j),
                                     reason = err \<rparr>, s'))))"

text \<open>
  \<open>getCurrentVersion\<close>. The \<open>try\<close> block catches what \<open>executeCommand\<close> throws and
  the \<open>TypeError\<close> of reading \<open>VersionString\<close> from \<open>undefined\<close> or \<open>null\<close>; the
  version is then the empty string. The result is \<open>None\<close> when \<open>VersionString\<close> reads
  as a value that is not a string (a missing property in particular): such a value is
  never \<open>===\<close> to a release, which is all the caller asks of it.
\<close>

definition VersionString :: "exec_data option \<Rightarrow> string option" where
  "VersionString d =
     (case d of
        None \<Rightarrow> Some []
      | Some (Data_json JNull) \<Rightarrow> Some []
      | Some (Data_json (JObj kvs)) \<Rightarrow>
          (case map_of kvs ''VersionString'' of Some (JStr v) \<Rightarrow> Some v | _ \<Rightarrow> None)
      | _ \<Rightarrow> None)"

definition getCurrentVersion :: "env \<Rightarrow> ArduinoCli \<Rightarrow> sys \<Rightarrow> string option \<times> sys" where
  "getCurrentVersion E this s =
     (case executeCommand E this ''version'' [] FORMAT_JSON s of
        (Inl e, s') \<Rightarrow> (Some [], s')
      | (Inr result, s') \<Rightarrow>
          if status result then (VersionString (data result), s') else (Some [], s'))"

definition configInitDir ::
  "env \<Rightarrow> ArduinoCli \<Rightarrow> string \<Rightarrow> sys \<Rightarrow> (js_error + IArduinoExec) \<times> sys" where
  "configInitDir E this destFolder s =
     executeCommand E this ''config'' [''init'', ''--dest-dir'', destFolder] FORMAT_JSON s"

definition configInitFile ::
  "env \<Rightarrow> ArduinoCli \<Rightarrow> string \<Rightarrow> sys \<Rightarrow> (js_error + IArduinoExec) \<times> sys" where
  "configInitFile E this destFile s =
     executeCommand E this ''config'' [''init'', ''--dest-file'', destFile] FORMAT_JSON s"

definition coreDownload ::
  "env \<Rightarrow> ArduinoCli \<Rightarrow> sys \<Rightarrow> (js_error + IArduinoExec) \<times> sys" where
  "coreDownload E this s = executeCommand E this ''core'' [''download''] FORMAT_JSON s"

definition coreList ::
  "env \<Rightarrow> ArduinoCli \<Rightarrow> string \<Rightarrow> sys \<Rightarrow> (js_error + IArduinoExec) \<times> sys" where
  "coreList E this params s =
     (let cacheId = ACLCache_getCacheId ''coreList'' [params]
      in case ACLCache_load (cache s) cacheId of
           Some result \<Rightarrow> (Inr result, s)
         | None \<Rightarrow>
             (case executeCommand E this ''core'' [''list'', params] FORMAT_JSON s of
                (Inl e, s') \<Rightarrow> (Inl e, s')
              | (Inr result, s') \<Rightarrow>
                  (Inr result, s'\<lparr>cache := ACLCache_write (cache s') cacheId result\<rparr>)))"

definition coreUpdateIndex ::
  "env \<Rightarrow> ArduinoCli \<Rightarrow> sys \<Rightarrow> (js_error + IArduinoExec) \<times> sys" where
  "coreUpdateIndex E this s =
     (let s0 = s\<lparr>cache := ACLCache_clear (cache s)\<rparr>
      in executeCommand E this ''core'' [''update-index''] FORMAT_TEXT s0)"

definition coreInstall ::
  "env \<Rightarrow> ArduinoCli \<Rightarrow> string \<Rightarrow> string \<Rightarrow> sys \<Rightarrow> (js_error + IArduinoExec) \<times> sys" where
  "coreInstall E this plat version s =
     executeCommand E this ''core'' [''install'', plat @ ''@'' @ version] FORMAT_TEXT s"

definition boardList ::
  "env \<Rightarrow> ArduinoCli \<Rightarrow> sys \<Rightarrow> (js_error + IArduinoExec) \<times> sys" where
  "boardList E this s =
     (let cacheId = ACLCache_getCacheId ''boardList'' []
      in case ACLCache_load (cache s) cacheId of
           Some result \<Rightarrow> (Inr result, s)
         | None \<Rightarrow>
             (case executeCommand E this ''board'' [''list''] FORMAT_JSON s of
                (Inl e, s') \<Rightarrow> (Inl e, s')
              | (Inr result, s') \<Rightarrow>
                  (Inr result, s'\<lparr>cache := ACLCache_write (cache s') cacheId result\<rparr>)))"

text \<open>
  \<open>checkEnvironment\<close>. The diagnostic it may return is made by
  \<open>createProjectDiagnostic\<close>, whose body is not among the sources: the result keeps the
  arguments of that call (folder, code, text, values). The promise it returns is already
  resolved, so the result is its value; an exception of \<open>configInitFile\<close> leaves the
  function. It is here that \<open>runOptions.arduinCliBin\<close> is assigned anew; the release is
  a string, as the signature declares, so \<open>findExecutable\<close> does not throw here.
\<close>

datatype ProjectDiagnostic =
  ProjectDiagnostic string string string "(string \<times> string) list"

definition checkEnvironment ::
  "env \<Rightarrow> ArduinoCli \<Rightarrow> string \<Rightarrow> sys
     \<Rightarrow> (js_error + ProjectDiagnostic option) \<times> ArduinoCli \<times> sys" where
  "checkEnvironment E this release s =
     (case configFile (runOptions this) of
        None \<Rightarrow> (Inr None, this, s)
      | Some cf \<Rightarrow>
          if length cf = 0 then (Inr None, this, s)
          else if \<not> existsSync E cf
          then (Inr (map_option
                       (\<lambda>folder. ProjectDiagnostic (uri folder) ''E006_FILE_NOT_FOUND'' cf [])
                       (workspaceFolder (runOptions this))), this, s)
          else
            (case findExecutable E (Some (JStr release)) of
               Inl e \<Rightarrow> (Inl e, this, s)
             | Inr bin \<Rightarrow>
                 (let this1 = this\<lparr>runOptions := (runOptions this)\<lparr>arduinCliBin := bin\<rparr>\<rparr>;
                      (version, s1) = getCurrentVersion E this1 s
                  in if Some release \<noteq> version
                     then (Inr (map_option
                                  (\<lambda>folder. ProjectDiagnostic (uri folder)
                                     ''E007_CLI_NOT_INSTALLED'' [] [(''version'', release)])
                                  (workspaceFolder (runOptions this1))), this1, s1)
                     else
                       (let cliConfig = path_join E [path_dirname E cf, ''arduino-cli.yaml'']
                        in if \<not> existsSync E cliConfig
                           then (case configInitFile E this1 cliConfig s1 of
                                   (Inl e, s2) \<Rightarrow> (Inl e, this1, s2)
                                 | (Inr r, s2) \<Rightarrow> (Inr None, this1, s2))
                           else (Inr None, this1, s1)))))"

subsection \<open>A concrete installation to run the model on\<close>

text \<open>
  A Linux machine with release 0.19.3 of the program installed below \<open>ACL_HOME\<close>, a
  workspace \<open>/w\<close> whose configuration file asks for that release, and a workspace
  \<open>/bad\<close> whose configuration file is not JSON. \<open>path.join\<close> and \<open>path.dirname\<close> are
  given for paths that are already normal, which is all that is asked of them below,
  and \<open>JSON.parse\<close> for the three documents that occur; the real function throws, as
  this one does, on the other texts that are used (\<open>not json\<close> and
  \<open>Downloading index\<close>).
\<close>

definition demo_dirname :: "string \<Rightarrow> string" where
  "demo_dirname p = rev (tl (dropWhile (\<lambda>c. c \<noteq> CHR ''/'') (rev p)))"

definition demo_JSON_parse :: "string \<Rightarrow> json option" where
  \<open>demo_JSON_parse s =
     (if s = ''{"cliVersion":"0.19.3"}'' then Some (JObj [(''cliVersion'', JStr ''0.19.3'')])
      else if s = ''{"VersionString":"0.19.3"}''
      then Some (JObj [(''VersionString'', JStr ''0.19.3'')])
      else if s = ''[]'' then Some (JArr [])
      else None)\<close>

definition demo_files :: "string \<Rightarrow> fs_entry option" where
  \<open>demo_files p =
     (if p = ''/w/.vscode/aclabarduino.json'' then Some (File ''{"cliVersion":"0.19.3"}'')
      else if p = ''/bad/.vscode/aclabarduino.json'' then Some (File ''not json'')
      else if p = ''/home/u/.acl/arduino-cli/0.19.3/arduino-cli'' then Some (File [])
      else None)\<close>

text \<open>
  The installed program: it answers \<open>version\<close> and \<open>core list\<close> with JSON, fails on
  \<open>board list\<close> with a message on \<open>stderr\<close>, and prints two lines, each ended by a
  line feed, for anything else.
\<close>

definition demo_spawnSync :: "nat \<Rightarrow> string \<Rightarrow> string list \<Rightarrow> SpawnSyncReturns" where
  \<open>demo_spawnSync n bin params =
     (if take 1 params = [''version'']
      then Spawn_done (Some 0) ''{"VersionString":"0.19.3"}'' []
      else if take 2 params = [''core'', ''list''] then Spawn_done (Some 0) ''[]'' []
      else if take 2 params = [''board'', ''list'']
      then Spawn_done (Some 1) [] ''Error: no boards''
      else Spawn_done (Some 0) (''Updating index'' @ [CHR 0x0A] @ ''done'' @ [CHR 0x0A]) [])\<close>

definition demo_env :: env where
  "demo_env =
     \<lparr> path_join = join_with ''/'',
       path_dirname = demo_dirname,
       JSON_parse = demo_JSON_parse,
       CONFIG_SERVER_DEFAULT = JObj [(''cliVersion'', JStr []), (''port'', JStr [])],
       ACL_HOME = ''/home/u/.acl'',
       platform = ''linux'',
       files = demo_files,
       spawnSync = demo_spawnSync \<rparr>"

text \<open>The same machine with a program that prints a progress line before anything else.\<close>

definition noisy_env :: env where
  "noisy_env =
     demo_env\<lparr>spawnSync := (\<lambda>n bin params. Spawn_done (Some 0) ''Downloading index'' [])\<rparr>"

text \<open>The initialisation options of the two workspaces.\<close>

definition demo_options :: Partial_ArduinoCliOptions where
  "demo_options =
     \<lparr> p_workspaceFolder = Some \<lparr> uri = ''/w'', name = ''w'' \<rparr>,
       p_configFile = None, p_debug = Some True, p_verbose = Some True,
       p_logFile = Some (LogFile_boolean True), p_arduinCliBin = None \<rparr>"

definition bad_options :: Partial_ArduinoCliOptions where
  "bad_options =
     \<lparr> p_workspaceFolder = Some \<lparr> uri = ''/bad'', name = ''bad'' \<rparr>,
       p_configFile = None, p_debug = None, p_verbose = None,
       p_logFile = None, p_arduinCliBin = None \<rparr>"

text \<open>
  The clients of the two workspaces. That the constructor builds them from the options
  above is proved below.
\<close>

definition demo_client :: ArduinoCli where
  "demo_client =
     \<lparr> runArguments =
         [''--config-file'', ''/w/.vscode/arduino-cli.yaml'', ''--log-file'',
          ''/w/arduino-cli-w.log'', ''--log-level'', ''debug'', ''--verbose''],
       runOptions =
         \<lparr> workspaceFolder = Some \<lparr> uri = ''/w'', name = ''w'' \<rparr>,
           configFile = Some ''/w/.vscode/aclabarduino.json'', debug = True,
           verbose = True, logFile = LogFile_string ''/w/arduino-cli-w.log'',
           arduinCliBin = Some ''/home/u/.acl/arduino-cli/0.19.3/arduino-cli'' \<rparr>,
       u_config = Some (JObj [(''cliVersion'', JStr ''0.19.3'')]) \<rparr>"

definition bad_client :: ArduinoCli where
  "bad_client =
     \<lparr> runArguments = [''--config-file'', ''/bad/.vscode/arduino-cli.yaml''],
       runOptions =
         \<lparr> workspaceFolder = Some \<lparr> uri = ''/bad'', name = ''bad'' \<rparr>,
           configFile = Some ''/bad/.vscode/aclabarduino.json'', debug = False,
           verbose = False, logFile = LogFile_undefined, arduinCliBin = None \<rparr>,
       u_config = None \<rparr>"



text \<open>
  A run of the server: the platforms are listed, then the environment is checked for
  release 9.9.9, which is not installed.
\<close>

definition demo_sys_listed :: sys where
  "demo_sys_listed = snd (coreList demo_env demo_client ''x'' initial_sys)"

definition demo_checked :: "(js_error + ProjectDiagnostic option) \<times> ArduinoCli \<times> sys" where
  "demo_checked = checkEnvironment demo_env demo_client ''9.9.9'' demo_sys_listed"

section \<open>Properties of the diagnostics\<close>

lemma charAt_0_Cons: "charAt (c # t) 0 = [c]"
  by (simp add: charAt_def)

lemma charAt_0_idem: "charAt (charAt s 0) 0 = charAt s 0"
  by (cases s) (simp_all add: charAt_def)

text \<open>
  Claim C3. The mapping from diagnostic code to severity is total and correct on the
  defined codes: every member of the \<open>Error\<close> enum has severity Error, every member of the
  \<open>Information\<close> enum has severity Information (so neither is ever undefined), and the
  result depends on the first character of the code only, with \<open>E\<close>, \<open>W\<close>, \<open>I\<close> and \<open>H\<close>
  giving Error, Warning, Information and Hint.
\<close>

theorem codeToSeverity_total_correct:
  "codeToSeverity (Error_value e) = Some SevError
   \<and> codeToSeverity (Information_value i) = Some SevInformation
   \<and> codeToSeverity s = codeToSeverity (charAt s 0)
   \<and> codeToSeverity (CHR ''E'' # t) = Some SevError
   \<and> codeToSeverity (CHR ''W'' # t) = Some SevWarning
   \<and> codeToSeverity (CHR ''I'' # t) = Some SevInformation
   \<and> codeToSeverity (CHR ''H'' # t) = Some SevHint"
proof -
  have err: "codeToSeverity (Error_value e) = Some SevError"
    by (cases e) (simp_all add: codeToSeverity_def charAt_0_Cons)
  have inf: "codeToSeverity (Information_value i) = Some SevInformation"
    by (cases i) (simp_all add: codeToSeverity_def charAt_0_Cons)
  have first: "codeToSeverity s = codeToSeverity (charAt s 0)"
    by (simp add: codeToSeverity_def charAt_0_idem)
  have chars: "codeToSeverity (CHR ''E'' # t) = Some SevError"
      "codeToSeverity (CHR ''W'' # t) = Some SevWarning"
      "codeToSeverity (CHR ''I'' # t) = Some SevInformation"
      "codeToSeverity (CHR ''H'' # t) = Some SevHint"
    by (simp_all add: codeToSeverity_def charAt_0_Cons)
  from err inf first chars show ?thesis by simp
qed

section \<open>Properties of the explorer tree items\<close>

text \<open>
  Claim C10. An entry whose status is not \<open>ok\<close>, the \<open>error\<close> status included, is
  rendered with the context value \<open>candidateProject\<close>, the two file-not-exist icons and
  a state that cannot be collapsed. An entry whose status is \<open>ok\<close> is rendered with
  the context value \<open>aclProject\<close>, the two file icons, the state \<open>Collapsed\<close> and the
  command that opens the configuration. No other entry gets that context value, that
  state or that command, and none gets those icons when \<open>path.resolve\<close> gives the file
  icon and the file-not-exist icon different paths.
\<close>

theorem ArduinoTreeItem_by_status:
  "(entry_status e \<noteq> ok \<longrightarrow>
      contextValue (ArduinoTreeItem C e) = ''candidateProject''
      \<and> iconPath (ArduinoTreeItem C e)
          = \<lparr> light = iconFileNotExistLight C, dark = iconFileNotExistDark C \<rparr>
      \<and> collapsibleState (ArduinoTreeItem C e) = CollapsibleNone)
   \<and> (entry_status e = ok \<longrightarrow>
      contextValue (ArduinoTreeItem C e) = ''aclProject''
      \<and> iconPath (ArduinoTreeItem C e) = \<lparr> light = iconFileLight C, dark = iconFileDark C \<rparr>
      \<and> collapsibleState (ArduinoTreeItem C e) = Collapsed
      \<and> command (ArduinoTreeItem C e)
          = \<lparr> command_id = ''arduinoExplorer.openConfiguration'', title = ''Open'',
              arguments = [project e] \<rparr>)
   \<and> (contextValue (ArduinoTreeItem C e) = ''aclProject'' \<longleftrightarrow> entry_status e = ok)
   \<and> (collapsibleState (ArduinoTreeItem C e) = Collapsed \<longleftrightarrow> entry_status e = ok)
   \<and> (command_id (command (ArduinoTreeItem C e)) = ''arduinoExplorer.openConfiguration''
        \<longleftrightarrow> entry_status e = ok)
   \<and> (iconFileLight C \<noteq> iconFileNotExistLight C \<longrightarrow>
        (light (iconPath (ArduinoTreeItem C e)) = iconFileLight C \<longleftrightarrow> entry_status e = ok))
   \<and> (iconFileDark C \<noteq> iconFileNotExistDark C \<longrightarrow>
        (dark (iconPath (ArduinoTreeItem C e)) = iconFileDark C \<longleftrightarrow> entry_status e = ok))"
  by (cases "entry_status e") (simp_all add: ArduinoTreeItem_def)

text \<open>
  The statement at an entry in the error state and at the same entry in the ok state.
\<close>

theorem ArduinoTreeItem_by_status_witness:
  "entry_status demo_error_entry \<noteq> ok
   \<and> contextValue (ArduinoTreeItem demo_client_env demo_error_entry) = ''candidateProject''
   \<and> iconPath (ArduinoTreeItem demo_client_env demo_error_entry)
       = \<lparr> light = iconFileNotExistLight demo_client_env,
           dark = iconFileNotExistDark demo_client_env \<rparr>
   \<and> collapsibleState (ArduinoTreeItem demo_client_env demo_error_entry) = CollapsibleNone
   \<and> entry_status demo_ok_entry = ok
   \<and> contextValue (ArduinoTreeItem demo_client_env demo_ok_entry) = ''aclProject''
   \<and> collapsibleState (ArduinoTreeItem demo_client_env demo_ok_entry) = Collapsed
   \<and> iconFileLight demo_client_env \<noteq> iconFileNotExistLight demo_client_env
   \<and> iconFileDark demo_client_env \<noteq> iconFileNotExistDark demo_client_env
   \<and> light (iconPath (ArduinoTreeItem demo_client_env demo_error_entry))
       \<noteq> iconFileLight demo_client_env"
proof -
  have err: "entry_status demo_error_entry \<noteq> ok"
    by (simp add: demo_error_entry_def)
  have good: "entry_status demo_ok_entry = ok"
    by (simp add: demo_ok_entry_def)
  have icons: "iconFileLight demo_client_env \<noteq> iconFileNotExistLight demo_client_env"
      "iconFileDark demo_client_env \<noteq> iconFileNotExistDark demo_client_env"
    by (simp_all add: iconFileLight_def iconFileNotExistLight_def iconFileDark_def
        iconFileNotExistDark_def iconFolderLight_def iconFolderDark_def iconFolder_def
        demo_client_env_def)
  from ArduinoTreeItem_by_status [of demo_error_entry demo_client_env]
       ArduinoTreeItem_by_status [of demo_ok_entry demo_client_env]
       err good icons
  show ?thesis by simp
qed

section \<open>Properties of the arduino-cli client\<close>

subsection \<open>The concrete installation, evaluated\<close>

text \<open>
  The constructor on the concrete installation. For the first workspace it finds the
  executable; for the second it leaves the client with neither a configuration nor an
  executable, the configuration file not being JSON; for the third, whose release is a
  number, it throws.
\<close>

lemma demo_client_eval:
  "demo_client =
     \<lparr> runArguments =
         [''--config-file'', ''/w/.vscode/arduino-cli.yaml'', ''--log-file'',
          ''/w/arduino-cli-w.log'', ''--log-level'', ''debug'', ''--verbose''],
       runOptions =
         \<lparr> workspaceFolder = Some \<lparr> uri = ''/w'', name = ''w'' \<rparr>,
           configFile = Some ''/w/.vscode/aclabarduino.json'', debug = True,
           verbose = True, logFile = LogFile_string ''/w/arduino-cli-w.log'',
           arduinCliBin = Some ''/home/u/.acl/arduino-cli/0.19.3/arduino-cli'' \<rparr>,
       u_config = Some (JObj [(''cliVersion'', JStr ''0.19.3'')]) \<rparr>"
  by (simp add: demo_client_def)

lemma demo_client_built:
  "new_ArduinoCli demo_env (normalizeOptions demo_env (Some demo_options))
     (normalizeArguments demo_env (normalizeOptions demo_env (Some demo_options)))
   = Inr demo_client"
  by (simp add: demo_client_def demo_env_def demo_options_def normalizeOptions_def
      normalizeArguments_def new_ArduinoCli_def config_def truthy_json_def
      truthy_string_def existsSync_def readFileSync_def demo_files_def
      demo_JSON_parse_def findExecutable_def cliVersion_def push_def demo_dirname_def
      Let_def)

lemma demo_bin:
  "arduinCliBin (runOptions demo_client) = Some ''/home/u/.acl/arduino-cli/0.19.3/arduino-cli''"
  by (simp add: demo_client_eval)

lemma bad_client_eval:
  "bad_client =
     \<lparr> runArguments = [''--config-file'', ''/bad/.vscode/arduino-cli.yaml''],
       runOptions =
         \<lparr> workspaceFolder = Some \<lparr> uri = ''/bad'', name = ''bad'' \<rparr>,
           configFile = Some ''/bad/.vscode/aclabarduino.json'', debug = False,
           verbose = False, logFile = LogFile_undefined, arduinCliBin = None \<rparr>,
       u_config = None \<rparr>"
  by (simp add: bad_client_def)

lemma bad_client_built:
  "new_ArduinoCli demo_env (normalizeOptions demo_env (Some bad_options))
     (normalizeArguments demo_env (normalizeOptions demo_env (Some bad_options)))
   = Inr bad_client"
  by (simp add: bad_client_def demo_env_def bad_options_def normalizeOptions_def
      normalizeArguments_def new_ArduinoCli_def config_def truthy_json_def
      truthy_string_def existsSync_def readFileSync_def demo_files_def
      demo_JSON_parse_def push_def demo_dirname_def Let_def)


lemma demo_instance:
  "ArduinoCli_instance demo_env (Some demo_options) initial_statics =
     (Inr 0, \<lparr> objects = [demo_client], u_instance = Some 0,
               u_initializationOptions = Some demo_options, constructions = 1 \<rparr>)"
  by (simp add: ArduinoCli_instance_def initial_statics_def demo_client_built Let_def)

subsection \<open>Running a command\<close>

text \<open>
  \<open>executeCommand\<close> never touches the cache. Without an executable it returns at once;
  with one it runs the subprocess once, and what it returns is decided by what the
  subprocess gave.
\<close>

lemma executeCommand_cache:
  "cache (snd (executeCommand E this c args extra s)) = cache s"
  by (simp add: executeCommand_def Let_def split: option.splits SpawnSyncReturns.splits)

lemma executeCommand_keeps_entries:
  "ACLCache_load (cache (snd (executeCommand E this c args extra t))) k
     = ACLCache_load (cache t) k"
  by (simp add: executeCommand_cache)

lemma executeCommand_not_informed:
  "\<not> truthy_string (arduinCliBin (runOptions this)) \<Longrightarrow>
     executeCommand E this c args extra s =
       (Inr not_informed, s)"
  by (simp add: executeCommand_def truthy_string_def Let_def split: option.splits)

lemma executeCommand_done:
  assumes "arduinCliBin (runOptions this) = Some bin" and "bin \<noteq> []"
    and "spawnSync E (length (spawned s)) bin
           ([c] @ filter (\<lambda>v. length v > 0) args @ runArguments this @ extra)
         = Spawn_done code out err"
  shows "executeCommand E this c args extra s =
     ((if out = [] then Inr \<lparr> status = (err = []), data = None, reason = err \<rparr>
       else if extra_is_text extra
       then Inr \<lparr> status = (err = []), data = Some (Data_text (split (CHR 0x0D) out)),
                  reason = err \<rparr>
       else (case JSON_parse E out of
               None \<Rightarrow> Inl SyntaxError
             | Some j \<Rightarrow> Inr \<lparr> status = (err = []), data = Some (Data_json j),
                               reason = err \<rparr>)),
      s\<lparr>spawned := spawned s
            @ [(bin, [c] @ filter (\<lambda>v. length v > 0) args @ runArguments this @ extra)]\<rparr>)"
  using assms by (simp add: executeCommand_def Let_def split: option.splits)

lemma executeCommand_failed:
  assumes "arduinCliBin (runOptions this) = Some bin" and "bin \<noteq> []"
    and "spawnSync E (length (spawned s)) bin
           ([c] @ filter (\<lambda>v. length v > 0) args @ runArguments this @ extra)
         = Spawn_failed"
  shows "fst (executeCommand E this c args extra s) = Inl TypeError"
  using assms by (simp add: executeCommand_def Let_def)

lemma executeCommand_spawned:
  "spawned (snd (executeCommand E this c args extra s)) =
     (case arduinCliBin (runOptions this) of
        None \<Rightarrow> spawned s
      | Some bin \<Rightarrow>
          if bin = [] then spawned s
          else spawned s
                 @ [(bin, [c] @ filter (\<lambda>v. length v > 0) args @ runArguments this @ extra)])"
  by (simp add: executeCommand_def Let_def split: option.splits SpawnSyncReturns.splits)

lemma executeCommand_spawned_length:
  "length (spawned (snd (executeCommand E this c args extra s))) \<le> Suc (length (spawned s))"
  by (simp add: executeCommand_spawned split: option.splits)

text \<open>
Some runs of the concrete installation.
\<close>

lemma demo_update_index:
  "executeCommand demo_env demo_client ''core'' [''update-index''] FORMAT_TEXT initial_sys =
     (Inr \<lparr> status = True,
            data = Some (Data_text [''Updating index'' @ [CHR 0x0A] @ ''done'' @ [CHR 0x0A]]),
            reason = [] \<rparr>,
      \<lparr> cache = Map.empty,
        spawned = [(''/home/u/.acl/arduino-cli/0.19.3/arduino-cli'',
                    [''core'', ''update-index'', ''--config-file'',
                     ''/w/.vscode/arduino-cli.yaml'', ''--log-file'',
                     ''/w/arduino-cli-w.log'', ''--log-level'', ''debug'', ''--verbose'',
                     ''--format'', ''text''])] \<rparr>)"
  by (simp add: executeCommand_def demo_client_eval demo_env_def demo_spawnSync_def
      FORMAT_TEXT_def extra_is_text_def initial_sys_def Let_def)

lemma split_CR_demo:
  "split (CHR 0x0D) (''Updating index'' @ [CHR 0x0A] @ ''done'' @ [CHR 0x0A])
     = [''Updating index'' @ [CHR 0x0A] @ ''done'' @ [CHR 0x0A]]"
  by simp

lemma noisy_core_list:
  "executeCommand noisy_env demo_client ''core'' [''list'', ''x''] FORMAT_JSON s =
     (Inl SyntaxError,
      s\<lparr>spawned := spawned s @ [(''/home/u/.acl/arduino-cli/0.19.3/arduino-cli'',
                    [''core'', ''list'', ''x'', ''--config-file'',
                     ''/w/.vscode/arduino-cli.yaml'', ''--log-file'',
                     ''/w/arduino-cli-w.log'', ''--log-level'', ''debug'', ''--verbose'',
                     ''--format'', ''json''])]\<rparr>)"
  by (simp add: executeCommand_def demo_client_eval noisy_env_def demo_env_def
      demo_JSON_parse_def FORMAT_JSON_def extra_is_text_def Let_def)

lemma demo_board_list_exec:
  "fst (executeCommand demo_env demo_client ''board'' [''list''] FORMAT_JSON initial_sys) =
     Inr \<lparr> status = False, data = None, reason = ''Error: no boards'' \<rparr>"
  by (simp add: executeCommand_def demo_client_eval demo_env_def
      demo_spawnSync_def FORMAT_JSON_def extra_is_text_def initial_sys_def Let_def)

text \<open>
  Claim C2. With an executable set, every result that \<open>executeCommand\<close> returns comes
  from a subprocess that ran; its \<open>status\<close> is true exactly when the standard error of
  that subprocess is empty, and its \<open>reason\<close> is that standard error, unchanged.
  Nothing else decides the status: the exit code is not looked at. A result with these
  two fields is returned whenever the subprocess ran and its standard output is empty,
  or the text format is asked for, or \<open>JSON.parse\<close> accepts the output.
\<close>

theorem executeCommand_status_iff_stderr_empty:
  assumes "arduinCliBin (runOptions this) = Some bin" and "bin \<noteq> []"
  shows "(\<forall>r. fst (executeCommand E this c args extra s) = Inr r \<longrightarrow>
            (\<exists>code out err.
               spawnSync E (length (spawned s)) bin
                 ([c] @ filter (\<lambda>v. length v > 0) args @ runArguments this @ extra)
               = Spawn_done code out err
               \<and> (status r \<longleftrightarrow> err = []) \<and> reason r = err))
       \<and> (\<forall>code out err.
            spawnSync E (length (spawned s)) bin
              ([c] @ filter (\<lambda>v. length v > 0) args @ runArguments this @ extra)
            = Spawn_done code out err
            \<and> (out = [] \<or> extra_is_text extra \<or> JSON_parse E out \<noteq> None) \<longrightarrow>
            (\<exists>r. fst (executeCommand E this c args extra s) = Inr r
                 \<and> (status r \<longleftrightarrow> err = []) \<and> reason r = err))"
proof (cases "spawnSync E (length (spawned s)) bin
                ([c] @ filter (\<lambda>v. length v > 0) args @ runArguments this @ extra)")
  case Spawn_failed
  with executeCommand_failed [OF assms Spawn_failed] show ?thesis by simp
next
  case (Spawn_done code out err)
  note run = executeCommand_done [OF assms Spawn_done]
  from Spawn_done show ?thesis
    by (auto simp: run split: option.splits)
qed

text \<open>
  The statement at \<open>board list\<close> on the concrete installation, where the program
  writes to its standard error: the result reports failure with that text as reason.
\<close>

theorem executeCommand_status_iff_stderr_empty_witness:
  "arduinCliBin (runOptions demo_client) = Some ''/home/u/.acl/arduino-cli/0.19.3/arduino-cli''
   \<and> spawnSync demo_env (length (spawned initial_sys))
         ''/home/u/.acl/arduino-cli/0.19.3/arduino-cli''
         ([''board''] @ filter (\<lambda>v. length v > 0) [''list''] @ runArguments demo_client
            @ FORMAT_JSON)
       = Spawn_done (Some 1) [] ''Error: no boards''
   \<and> (\<exists>r. fst (executeCommand demo_env demo_client ''board'' [''list''] FORMAT_JSON
                 initial_sys) = Inr r
          \<and> (status r \<longleftrightarrow> ''Error: no boards'' = []) \<and> reason r = ''Error: no boards'')"
proof -
  have ne: "''/home/u/.acl/arduino-cli/0.19.3/arduino-cli'' \<noteq> []" by simp
  have sp: "spawnSync demo_env (length (spawned initial_sys))
         ''/home/u/.acl/arduino-cli/0.19.3/arduino-cli''
         ([''board''] @ filter (\<lambda>v. length v > 0) [''list''] @ runArguments demo_client
            @ FORMAT_JSON)
       = Spawn_done (Some 1) [] ''Error: no boards''"
    by (simp add: demo_env_def demo_spawnSync_def)
  from executeCommand_status_iff_stderr_empty
         [OF demo_bin ne, where E = demo_env and s = initial_sys and c = "''board''"
            and args = "[''list'']" and extra = FORMAT_JSON]
       sp demo_bin
  show ?thesis by blast
qed

text \<open>
  Claim C5, as amended. With an executable set, every result that \<open>executeCommand\<close>
  returns comes from a subprocess that ran, and its \<open>data\<close> is \<open>undefined\<close> exactly
  when the standard output of that subprocess is empty. For a non-empty output, under
  the text format \<open>data\<close> is the object whose field \<open>text\<close> holds the output split at
  carriage returns, and under the JSON format it is the value that \<open>JSON.parse\<close>
  gives for the output. No result is returned in two cases: when \<open>JSON.parse\<close> throws
  on a non-empty output under the JSON format, a \<open>SyntaxError\<close> leaves the function;
  when the subprocess could not be started, a \<open>TypeError\<close> does.
\<close>

theorem executeCommand_data:
  assumes "arduinCliBin (runOptions this) = Some bin" and "bin \<noteq> []"
  shows "(\<forall>r. fst (executeCommand E this c args extra s) = Inr r \<longrightarrow>
            (\<exists>code out err.
               spawnSync E (length (spawned s)) bin
                 ([c] @ filter (\<lambda>v. length v > 0) args @ runArguments this @ extra)
               = Spawn_done code out err
               \<and> (data r = None \<longleftrightarrow> out = [])
               \<and> (out \<noteq> [] \<and> extra_is_text extra \<longrightarrow>
                    data r = Some (Data_text (split (CHR 0x0D) out)))
               \<and> (out \<noteq> [] \<and> \<not> extra_is_text extra \<longrightarrow>
                    (\<exists>j. JSON_parse E out = Some j \<and> data r = Some (Data_json j)))))
       \<and> (\<forall>code out err.
            spawnSync E (length (spawned s)) bin
              ([c] @ filter (\<lambda>v. length v > 0) args @ runArguments this @ extra)
            = Spawn_done code out err \<longrightarrow>
            (if out \<noteq> [] \<and> \<not> extra_is_text extra \<and> JSON_parse E out = None
             then fst (executeCommand E this c args extra s) = Inl SyntaxError
             else (\<exists>r. fst (executeCommand E this c args extra s) = Inr r)))
       \<and> (spawnSync E (length (spawned s)) bin
             ([c] @ filter (\<lambda>v. length v > 0) args @ runArguments this @ extra)
           = Spawn_failed \<longrightarrow>
           fst (executeCommand E this c args extra s) = Inl TypeError)"
proof (cases "spawnSync E (length (spawned s)) bin
                ([c] @ filter (\<lambda>v. length v > 0) args @ runArguments this @ extra)")
  case Spawn_failed
  with executeCommand_failed [OF assms Spawn_failed] show ?thesis by simp
next
  case (Spawn_done code out err)
  note run = executeCommand_done [OF assms Spawn_done]
  from Spawn_done show ?thesis
    by (auto simp: run split: option.splits)
qed

text \<open>
  The statement at \<open>core update-index\<close> on the concrete installation, under the text
  format.
\<close>

theorem executeCommand_data_witness:
  "arduinCliBin (runOptions demo_client) = Some ''/home/u/.acl/arduino-cli/0.19.3/arduino-cli''
   \<and> spawnSync demo_env (length (spawned initial_sys))
         ''/home/u/.acl/arduino-cli/0.19.3/arduino-cli''
         ([''core''] @ filter (\<lambda>v. length v > 0) [''update-index'']
            @ runArguments demo_client @ FORMAT_TEXT)
       = Spawn_done (Some 0) (''Updating index'' @ [CHR 0x0A] @ ''done'' @ [CHR 0x0A]) []
   \<and> extra_is_text FORMAT_TEXT
   \<and> fst (executeCommand demo_env demo_client ''core'' [''update-index''] FORMAT_TEXT
            initial_sys)
       = Inr \<lparr> status = True,
               data = Some (Data_text
                        (split (CHR 0x0D)
                           (''Updating index'' @ [CHR 0x0A] @ ''done'' @ [CHR 0x0A]))),
               reason = [] \<rparr>"
proof -
  have ne: "''/home/u/.acl/arduino-cli/0.19.3/arduino-cli'' \<noteq> []" by simp
  have sp: "spawnSync demo_env (length (spawned initial_sys))
         ''/home/u/.acl/arduino-cli/0.19.3/arduino-cli''
         ([''core''] @ filter (\<lambda>v. length v > 0) [''update-index'']
            @ runArguments demo_client @ FORMAT_TEXT)
       = Spawn_done (Some 0) (''Updating index'' @ [CHR 0x0A] @ ''done'' @ [CHR 0x0A]) []"
    by (simp add: demo_env_def demo_spawnSync_def)
  have tx: "extra_is_text FORMAT_TEXT"
    by (simp add: extra_is_text_def FORMAT_TEXT_def)
  from executeCommand_data
         [OF demo_bin ne, where E = demo_env and s = initial_sys and c = "''core''"
            and args = "[''update-index'']" and extra = FORMAT_TEXT]
       sp tx
  have "\<exists>r. fst (executeCommand demo_env demo_client ''core'' [''update-index'']
                    FORMAT_TEXT initial_sys) = Inr r"
    by simp
  with tx demo_bin sp show ?thesis
    by (simp add: demo_update_index)
qed

text \<open>
  As it is written, claim C5 has \<open>data\<close> be the standard output split into its lines
  at line feeds, and has every invocation return a result. On the concrete installation
  the output of \<open>core update-index\<close> is two lines, each ended by a line feed: \<open>data\<close>
  is an object whose \<open>text\<close> has one element, the whole output, where the lines
  are \<open>Updating index\<close>, \<open>done\<close> and the empty string. And when the program prints a
  progress line under the JSON format, \<open>executeCommand\<close> returns no result: it throws.
\<close>

theorem executeCommand_data_counterexample:
  "fst (executeCommand demo_env demo_client ''core'' [''update-index''] FORMAT_TEXT
          initial_sys)
     = Inr \<lparr> status = True,
             data = Some (Data_text [''Updating index'' @ [CHR 0x0A] @ ''done'' @ [CHR 0x0A]]),
             reason = [] \<rparr>
   \<and> split (CHR 0x0A) (''Updating index'' @ [CHR 0x0A] @ ''done'' @ [CHR 0x0A])
       = [''Updating index'', ''done'', []]
   \<and> fst (executeCommand noisy_env demo_client ''core'' [''list'', ''x''] FORMAT_JSON
            initial_sys)
       = Inl SyntaxError"
  by (simp add: demo_update_index noisy_core_list)

subsection \<open>The cached commands\<close>

text \<open>
  \<open>coreList\<close> and \<open>boardList\<close> on a cache hit and on a cache miss, two calls in a row,
  and what the other operations do to the entries of the cache.
\<close>

lemma coreList_hit:
  "ACLCache_load (cache t) (ACLCache_getCacheId ''coreList'' [p]) = Some r \<Longrightarrow>
     coreList E this p t = (Inr r, t)"
  by (simp add: coreList_def)

lemma boardList_hit:
  "ACLCache_load (cache t) (ACLCache_getCacheId ''boardList'' []) = Some r \<Longrightarrow>
     boardList E this t = (Inr r, t)"
  by (simp add: boardList_def)

lemma coreList_miss:
  "ACLCache_load (cache s) (ACLCache_getCacheId ''coreList'' [p]) = None \<Longrightarrow>
     coreList E this p s =
       (case executeCommand E this ''core'' [''list'', p] FORMAT_JSON s of
          (Inl e, s') \<Rightarrow> (Inl e, s')
        | (Inr result, s') \<Rightarrow>
            (Inr result,
             s'\<lparr>cache := ACLCache_write (cache s') (ACLCache_getCacheId ''coreList'' [p])
                              result\<rparr>))"
  by (simp add: coreList_def)

lemma boardList_miss:
  "ACLCache_load (cache s) (ACLCache_getCacheId ''boardList'' []) = None \<Longrightarrow>
     boardList E this s =
       (case executeCommand E this ''board'' [''list''] FORMAT_JSON s of
          (Inl e, s') \<Rightarrow> (Inl e, s')
        | (Inr result, s') \<Rightarrow>
            (Inr result,
             s'\<lparr>cache := ACLCache_write (cache s') (ACLCache_getCacheId ''boardList'' [])
                              result\<rparr>))"
  by (simp add: boardList_def)

lemma coreList_twice:
  assumes "fst (coreList E this p s) = Inr r"
  shows "coreList E this p (snd (coreList E this p s)) = (Inr r, snd (coreList E this p s))"
    and "length (spawned (snd (coreList E this p s))) \<le> Suc (length (spawned s))"
proof -
  let ?k = "ACLCache_getCacheId ''coreList'' [p]"
  show "coreList E this p (snd (coreList E this p s)) = (Inr r, snd (coreList E this p s))"
  proof (cases "ACLCache_load (cache s) ?k")
    case (Some r')
    with assms show ?thesis by (simp add: coreList_hit)
  next
    case None
    obtain x s' where ex: "executeCommand E this ''core'' [''list'', p] FORMAT_JSON s = (x, s')"
      by (cases "executeCommand E this ''core'' [''list'', p] FORMAT_JSON s")
    from assms None ex have x: "x = Inr r"
      by (cases x) (simp_all add: coreList_miss)
    from None ex x have st: "snd (coreList E this p s) = s'\<lparr>cache := ACLCache_write (cache s') ?k r\<rparr>"
      by (simp add: coreList_miss)
    have "ACLCache_load (cache (snd (coreList E this p s))) ?k = Some r"
      by (simp add: st ACLCache_load_def ACLCache_write_def)
    then show ?thesis by (rule coreList_hit)
  qed
  show "length (spawned (snd (coreList E this p s))) \<le> Suc (length (spawned s))"
  proof (cases "ACLCache_load (cache s) ?k")
    case (Some r')
    then show ?thesis by (simp add: coreList_hit)
  next
    case None
    obtain x s' where ex: "executeCommand E this ''core'' [''list'', p] FORMAT_JSON s = (x, s')"
      by (cases "executeCommand E this ''core'' [''list'', p] FORMAT_JSON s")
    have "length (spawned s') \<le> Suc (length (spawned s))"
      using executeCommand_spawned_length [of E this "''core''" "[''list'', p]" FORMAT_JSON s] ex
      by simp
    with None ex show ?thesis
      by (cases x) (simp_all add: coreList_miss)
  qed
qed

lemma boardList_twice:
  assumes "fst (boardList E this s) = Inr r"
  shows "boardList E this (snd (boardList E this s)) = (Inr r, snd (boardList E this s))"
    and "length (spawned (snd (boardList E this s))) \<le> Suc (length (spawned s))"
proof -
  let ?k = "ACLCache_getCacheId ''boardList'' []"
  show "boardList E this (snd (boardList E this s)) = (Inr r, snd (boardList E this s))"
  proof (cases "ACLCache_load (cache s) ?k")
    case (Some r')
    with assms show ?thesis by (simp add: boardList_hit)
  next
    case None
    obtain x s' where ex: "executeCommand E this ''board'' [''list''] FORMAT_JSON s = (x, s')"
      by (cases "executeCommand E this ''board'' [''list''] FORMAT_JSON s")
    from assms None ex have x: "x = Inr r"
      by (cases x) (simp_all add: boardList_miss)
    from None ex x have st: "snd (boardList E this s) = s'\<lparr>cache := ACLCache_write (cache s') ?k r\<rparr>"
      by (simp add: boardList_miss)
    have "ACLCache_load (cache (snd (boardList E this s))) ?k = Some r"
      by (simp add: st ACLCache_load_def ACLCache_write_def)
    then show ?thesis by (rule boardList_hit)
  qed
  show "length (spawned (snd (boardList E this s))) \<le> Suc (length (spawned s))"
  proof (cases "ACLCache_load (cache s) ?k")
    case (Some r')
    then show ?thesis by (simp add: boardList_hit)
  next
    case None
    obtain x s' where ex: "executeCommand E this ''board'' [''list''] FORMAT_JSON s = (x, s')"
      by (cases "executeCommand E this ''board'' [''list''] FORMAT_JSON s")
    have "length (spawned s') \<le> Suc (length (spawned s))"
      using executeCommand_spawned_length [of E this "''board''" "[''list'']" FORMAT_JSON s] ex
      by simp
    with None ex show ?thesis
      by (cases x) (simp_all add: boardList_miss)
  qed
qed

lemma coreUpdateIndex_clears:
  "cache (snd (coreUpdateIndex E this s)) = Map.empty"
  by (simp add: coreUpdateIndex_def executeCommand_cache ACLCache_clear_def)

lemma coreList_keeps_entries:
  "ACLCache_load (cache t) k = Some r \<Longrightarrow>
     ACLCache_load (cache (snd (coreList E this q t))) k = Some r"
  by (cases "executeCommand E this ''core'' [''list'', q] FORMAT_JSON t")
     (auto simp: coreList_def ACLCache_load_def ACLCache_write_def Let_def
        dest: arg_cong [where f = "\<lambda>x. cache (snd x)"]
        simp: executeCommand_cache split: option.splits sum.splits)

lemma boardList_keeps_entries:
  "ACLCache_load (cache t) k = Some r \<Longrightarrow>
     ACLCache_load (cache (snd (boardList E this t))) k = Some r"
  by (cases "executeCommand E this ''board'' [''list''] FORMAT_JSON t")
     (auto simp: boardList_def ACLCache_load_def ACLCache_write_def Let_def
        dest: arg_cong [where f = "\<lambda>x. cache (snd x)"]
        simp: executeCommand_cache split: option.splits sum.splits)

lemma demo_core_list:
  "coreList demo_env demo_client ''x'' initial_sys =
     (Inr \<lparr> status = True, data = Some (Data_json (JArr [])), reason = [] \<rparr>,
      \<lparr> cache = [(''coreList'', [''x'']) \<mapsto>
                   \<lparr> status = True, data = Some (Data_json (JArr [])), reason = [] \<rparr>],
        spawned = [(''/home/u/.acl/arduino-cli/0.19.3/arduino-cli'',
                    [''core'', ''list'', ''x'', ''--config-file'',
                     ''/w/.vscode/arduino-cli.yaml'', ''--log-file'',
                     ''/w/arduino-cli-w.log'', ''--log-level'', ''debug'', ''--verbose'',
                     ''--format'', ''json''])] \<rparr>)"
  by (simp add: coreList_def executeCommand_def demo_client_eval demo_env_def
      demo_spawnSync_def demo_JSON_parse_def FORMAT_JSON_def extra_is_text_def
      initial_sys_def ACLCache_getCacheId_def ACLCache_load_def ACLCache_write_def Let_def)

lemma demo_board_list:
  "boardList demo_env demo_client initial_sys =
     (Inr \<lparr> status = False, data = None, reason = ''Error: no boards'' \<rparr>,
      \<lparr> cache = [(''boardList'', []) \<mapsto>
                   \<lparr> status = False, data = None, reason = ''Error: no boards'' \<rparr>],
        spawned = [(''/home/u/.acl/arduino-cli/0.19.3/arduino-cli'',
                    [''board'', ''list'', ''--config-file'',
                     ''/w/.vscode/arduino-cli.yaml'', ''--log-file'',
                     ''/w/arduino-cli-w.log'', ''--log-level'', ''debug'', ''--verbose'',
                     ''--format'', ''json''])] \<rparr>)"
  by (simp add: boardList_def executeCommand_def demo_client_eval demo_env_def
      demo_spawnSync_def FORMAT_JSON_def extra_is_text_def
      initial_sys_def ACLCache_getCacheId_def ACLCache_load_def ACLCache_write_def Let_def)

lemma demo_checked_eval:
  "demo_checked =
     (Inr (Some (ProjectDiagnostic ''/w'' ''E007_CLI_NOT_INSTALLED'' []
                   [(''version'', ''9.9.9'')])),
      demo_client\<lparr>runOptions := (runOptions demo_client)\<lparr>arduinCliBin := None\<rparr>\<rparr>,
      demo_sys_listed)"
  by (simp add: demo_checked_def checkEnvironment_def getCurrentVersion_def
      executeCommand_def not_informed_def findExecutable_def existsSync_def
      demo_client_eval demo_env_def demo_files_def Let_def)

lemma executeCommand_throws:
  assumes "fst (executeCommand E this c args extra s) = Inl e"
  shows "truthy_string (arduinCliBin (runOptions this))"
  using assms
  by (auto simp: executeCommand_def truthy_string_def Let_def split: option.splits if_splits)

lemma executeCommand_runs:
  assumes "truthy_string (arduinCliBin (runOptions this))"
  shows "length (spawned (snd (executeCommand E this c args extra s))) = Suc (length (spawned s))"
  using assms
  by (auto simp: executeCommand_spawned truthy_string_def split: option.splits)

lemma coreList_throws:
  assumes "fst (coreList E this p s) = Inl e"
  shows "ACLCache_load (cache s) (ACLCache_getCacheId ''coreList'' [p]) = None"
    and "fst (executeCommand E this ''core'' [''list'', p] FORMAT_JSON s) = Inl e"
    and "snd (coreList E this p s)
           = snd (executeCommand E this ''core'' [''list'', p] FORMAT_JSON s)"
proof -
  show miss: "ACLCache_load (cache s) (ACLCache_getCacheId ''coreList'' [p]) = None"
    using assms by (cases "ACLCache_load (cache s) (ACLCache_getCacheId ''coreList'' [p])")
      (simp_all add: coreList_hit)
  obtain x s' where ex: "executeCommand E this ''core'' [''list'', p] FORMAT_JSON s = (x, s')"
    by (cases "executeCommand E this ''core'' [''list'', p] FORMAT_JSON s")
  from assms miss ex have x: "x = Inl e"
    by (cases x) (simp_all add: coreList_miss)
  from ex x show "fst (executeCommand E this ''core'' [''list'', p] FORMAT_JSON s) = Inl e"
    by simp
  from miss ex x show "snd (coreList E this p s)
           = snd (executeCommand E this ''core'' [''list'', p] FORMAT_JSON s)"
    by (simp add: coreList_miss)
qed

lemma boardList_throws:
  assumes "fst (boardList E this s) = Inl e"
  shows "ACLCache_load (cache s) (ACLCache_getCacheId ''boardList'' []) = None"
    and "fst (executeCommand E this ''board'' [''list''] FORMAT_JSON s) = Inl e"
    and "snd (boardList E this s)
           = snd (executeCommand E this ''board'' [''list''] FORMAT_JSON s)"
proof -
  show miss: "ACLCache_load (cache s) (ACLCache_getCacheId ''boardList'' []) = None"
    using assms by (cases "ACLCache_load (cache s) (ACLCache_getCacheId ''boardList'' [])")
      (simp_all add: boardList_hit)
  obtain x s' where ex: "executeCommand E this ''board'' [''list''] FORMAT_JSON s = (x, s')"
    by (cases "executeCommand E this ''board'' [''list''] FORMAT_JSON s")
  from assms miss ex have x: "x = Inl e"
    by (cases x) (simp_all add: boardList_miss)
  from ex x show "fst (executeCommand E this ''board'' [''list''] FORMAT_JSON s) = Inl e"
    by simp
  from miss ex x show "snd (boardList E this s)
           = snd (executeCommand E this ''board'' [''list''] FORMAT_JSON s)"
    by (simp add: boardList_miss)
qed

lemma coreList_miss_spawned:
  assumes "ACLCache_load (cache s) (ACLCache_getCacheId ''coreList'' [p]) = None"
  shows "spawned (snd (coreList E this p s))
           = spawned (snd (executeCommand E this ''core'' [''list'', p] FORMAT_JSON s))"
  by (cases "executeCommand E this ''core'' [''list'', p] FORMAT_JSON s")
     (simp add: coreList_miss [OF assms] split: sum.splits)

lemma boardList_miss_spawned:
  assumes "ACLCache_load (cache s) (ACLCache_getCacheId ''boardList'' []) = None"
  shows "spawned (snd (boardList E this s))
           = spawned (snd (executeCommand E this ''board'' [''list''] FORMAT_JSON s))"
  by (cases "executeCommand E this ''board'' [''list''] FORMAT_JSON s")
     (simp add: boardList_miss [OF assms] split: sum.splits)

lemma coreList_throws_again:
  assumes "fst (coreList E this p s) = Inl e"
  shows "cache (snd (coreList E this p s)) = cache s"
    and "length (spawned (snd (coreList E this p s))) = Suc (length (spawned s))"
    and "length (spawned (snd (coreList E this p (snd (coreList E this p s)))))
           = Suc (Suc (length (spawned s)))"
proof -
  note t = coreList_throws [OF assms]
  have bin: "truthy_string (arduinCliBin (runOptions this))"
    using t(2) by (rule executeCommand_throws)
  show c: "cache (snd (coreList E this p s)) = cache s"
    by (simp add: t(3) executeCommand_cache)
  show one: "length (spawned (snd (coreList E this p s))) = Suc (length (spawned s))"
    by (simp add: t(3) executeCommand_runs [OF bin])
  have miss: "ACLCache_load (cache (snd (coreList E this p s)))
                (ACLCache_getCacheId ''coreList'' [p]) = None"
    using t(1) by (simp add: c ACLCache_load_def)
  show "length (spawned (snd (coreList E this p (snd (coreList E this p s)))))
           = Suc (Suc (length (spawned s)))"
    by (simp add: coreList_miss_spawned [OF miss] executeCommand_runs [OF bin] one)
qed

lemma boardList_throws_again:
  assumes "fst (boardList E this s) = Inl e"
  shows "cache (snd (boardList E this s)) = cache s"
    and "length (spawned (snd (boardList E this s))) = Suc (length (spawned s))"
    and "length (spawned (snd (boardList E this (snd (boardList E this s)))))
           = Suc (Suc (length (spawned s)))"
proof -
  note t = boardList_throws [OF assms]
  have bin: "truthy_string (arduinCliBin (runOptions this))"
    using t(2) by (rule executeCommand_throws)
  show c: "cache (snd (boardList E this s)) = cache s"
    by (simp add: t(3) executeCommand_cache)
  show one: "length (spawned (snd (boardList E this s))) = Suc (length (spawned s))"
    by (simp add: t(3) executeCommand_runs [OF bin])
  have miss: "ACLCache_load (cache (snd (boardList E this s)))
                (ACLCache_getCacheId ''boardList'' []) = None"
    using t(1) by (simp add: c ACLCache_load_def)
  show "length (spawned (snd (boardList E this (snd (boardList E this s)))))
           = Suc (Suc (length (spawned s)))"
    by (simp add: boardList_miss_spawned [OF miss] executeCommand_runs [OF bin] one)
qed

text \<open>
  Claim C4, as amended. When a call of \<open>coreList\<close> (or of \<open>boardList\<close>) returns a
  result, a second call with the same argument, made in the state that the first call
  left, returns the same result and leaves the state as it is; the two calls together
  start at most one subprocess. When the first call throws, whatever the exception
  (\<open>JSON.parse\<close> failed on the output, or the process could not be started), the
  cache had no entry for the signature, one subprocess has run, the cache is as it was,
  and the second call runs the program again: two subprocesses for the two calls.
  \<open>coreUpdateIndex\<close> is \<open>executeCommand\<close> run on the state with the cache emptied, so
  the cache is cleared before the program is run, and after it no key has an entry.
\<close>

theorem cache_lookup_idempotent_and_cleared:
  "(fst (coreList E this p s) = Inr r \<longrightarrow>
      coreList E this p (snd (coreList E this p s)) = (Inr r, snd (coreList E this p s))
      \<and> length (spawned (snd (coreList E this p s))) \<le> Suc (length (spawned s)))
   \<and> (fst (boardList E this s) = Inr r \<longrightarrow>
      boardList E this (snd (boardList E this s)) = (Inr r, snd (boardList E this s))
      \<and> length (spawned (snd (boardList E this s))) \<le> Suc (length (spawned s)))
   \<and> (fst (coreList E this p s) = Inl e \<longrightarrow>
      ACLCache_load (cache s) (ACLCache_getCacheId ''coreList'' [p]) = None
      \<and> cache (snd (coreList E this p s)) = cache s
      \<and> length (spawned (snd (coreList E this p s))) = Suc (length (spawned s))
      \<and> length (spawned (snd (coreList E this p (snd (coreList E this p s)))))
          = Suc (Suc (length (spawned s))))
   \<and> (fst (boardList E this s) = Inl e \<longrightarrow>
      ACLCache_load (cache s) (ACLCache_getCacheId ''boardList'' []) = None
      \<and> cache (snd (boardList E this s)) = cache s
      \<and> length (spawned (snd (boardList E this s))) = Suc (length (spawned s))
      \<and> length (spawned (snd (boardList E this (snd (boardList E this s)))))
          = Suc (Suc (length (spawned s))))
   \<and> coreUpdateIndex E this s =
       executeCommand E this ''core'' [''update-index''] FORMAT_TEXT (s\<lparr>cache := Map.empty\<rparr>)
   \<and> (\<forall>k. ACLCache_load (cache (snd (coreUpdateIndex E this s))) k = None)"
proof -
  have upd: "coreUpdateIndex E this s =
       executeCommand E this ''core'' [''update-index''] FORMAT_TEXT (s\<lparr>cache := Map.empty\<rparr>)"
    by (simp add: coreUpdateIndex_def ACLCache_clear_def)
  have clr: "\<forall>k. ACLCache_load (cache (snd (coreUpdateIndex E this s))) k = None"
    by (simp add: coreUpdateIndex_clears ACLCache_load_def)
  from coreList_twice [of E this p s r] boardList_twice [of E this s r]
       coreList_throws (1) [of E this p s e] coreList_throws_again [of E this p s e]
       boardList_throws (1) [of E this s e] boardList_throws_again [of E this s e]
       upd clr
  show ?thesis by blast
qed

text \<open>
  The statement at \<open>coreList\<close> on the concrete installation, where the second call is
  served from the cache, and on the installation whose program prints a progress line,
  where the first call throws and the second runs the program again.
\<close>

theorem cache_lookup_idempotent_and_cleared_witness:
  "fst (coreList demo_env demo_client ''x'' initial_sys)
     = Inr \<lparr> status = True, data = Some (Data_json (JArr [])), reason = [] \<rparr>
   \<and> coreList demo_env demo_client ''x'' (snd (coreList demo_env demo_client ''x'' initial_sys))
       = (Inr \<lparr> status = True, data = Some (Data_json (JArr [])), reason = [] \<rparr>,
          snd (coreList demo_env demo_client ''x'' initial_sys))
   \<and> length (spawned (snd (coreList demo_env demo_client ''x'' initial_sys)))
       \<le> Suc (length (spawned initial_sys))
   \<and> fst (coreList noisy_env demo_client ''x'' initial_sys) = Inl SyntaxError
   \<and> cache (snd (coreList noisy_env demo_client ''x'' initial_sys)) = cache initial_sys
   \<and> length (spawned (snd (coreList noisy_env demo_client ''x''
                (snd (coreList noisy_env demo_client ''x'' initial_sys)))))
       = Suc (Suc (length (spawned initial_sys)))"
proof -
  have thrown: "fst (coreList noisy_env demo_client ''x'' initial_sys) = Inl SyntaxError"
    by (simp add: coreList_def noisy_core_list ACLCache_getCacheId_def ACLCache_load_def
        initial_sys_def)
  from cache_lookup_idempotent_and_cleared
          [of demo_env demo_client "''x''" initial_sys
              "\<lparr> status = True, data = Some (Data_json (JArr [])), reason = [] \<rparr>"]
       cache_lookup_idempotent_and_cleared
          [of noisy_env demo_client "''x''" initial_sys _ SyntaxError]
       thrown
  show ?thesis by (simp add: demo_core_list)
qed

text \<open>
  As it is written, claim C4 holds of every argument value, whether the first call
  returns or not. When the program prints a progress line, the first call throws after
  the subprocess has run, nothing is written to the cache, and the second call runs a
  second subprocess: two runs, not at most one.
\<close>

theorem cache_lookup_idempotent_and_cleared_counterexample:
  "fst (coreList noisy_env demo_client ''x'' initial_sys) = Inl SyntaxError
   \<and> fst (coreList noisy_env demo_client ''x''
            (snd (coreList noisy_env demo_client ''x'' initial_sys))) = Inl SyntaxError
   \<and> length (spawned (snd (coreList noisy_env demo_client ''x''
            (snd (coreList noisy_env demo_client ''x'' initial_sys))))) = 2"
proof -
  have first: "coreList noisy_env demo_client ''x'' initial_sys =
      (Inl SyntaxError,
       initial_sys\<lparr>spawned := spawned initial_sys
          @ [(''/home/u/.acl/arduino-cli/0.19.3/arduino-cli'',
              [''core'', ''list'', ''x'', ''--config-file'',
               ''/w/.vscode/arduino-cli.yaml'', ''--log-file'',
               ''/w/arduino-cli-w.log'', ''--log-level'', ''debug'', ''--verbose'',
               ''--format'', ''json''])]\<rparr>)"
    by (simp add: coreList_def noisy_core_list ACLCache_getCacheId_def ACLCache_load_def
        initial_sys_def)
  show ?thesis
    by (simp add: first)
       (simp add: coreList_def noisy_core_list ACLCache_getCacheId_def ACLCache_load_def
        initial_sys_def)
qed

text \<open>
  Claim C9. When the cache has no entry for the command signature and \<open>executeCommand\<close>
  returns a result, \<open>coreList\<close> (and likewise \<open>boardList\<close>) returns that result and
  stores it under the signature, whatever its status: a failed result is stored like
  any other. While the entry is there, every call with that signature returns it and
  leaves the state as it is, so the program is not run again. The entry stays through
  any call of \<open>coreList\<close>, \<open>boardList\<close> and \<open>executeCommand\<close>, and it is gone after
  \<open>coreUpdateIndex\<close>, which clears the cache.
\<close>

theorem failed_results_are_cached:
  "(ACLCache_load (cache s) (ACLCache_getCacheId ''coreList'' [p]) = None
      \<and> fst (executeCommand E this ''core'' [''list'', p] FORMAT_JSON s) = Inr r \<longrightarrow>
        fst (coreList E this p s) = Inr r
        \<and> ACLCache_load (cache (snd (coreList E this p s)))
             (ACLCache_getCacheId ''coreList'' [p]) = Some r)
   \<and> (ACLCache_load (cache s) (ACLCache_getCacheId ''boardList'' []) = None
      \<and> fst (executeCommand E this ''board'' [''list''] FORMAT_JSON s) = Inr r \<longrightarrow>
        fst (boardList E this s) = Inr r
        \<and> ACLCache_load (cache (snd (boardList E this s)))
             (ACLCache_getCacheId ''boardList'' []) = Some r)
   \<and> (ACLCache_load (cache t) (ACLCache_getCacheId ''coreList'' [p]) = Some r \<longrightarrow>
        coreList E this p t = (Inr r, t))
   \<and> (ACLCache_load (cache t) (ACLCache_getCacheId ''boardList'' []) = Some r \<longrightarrow>
        boardList E this t = (Inr r, t))
   \<and> (ACLCache_load (cache t) k = Some r \<longrightarrow>
        ACLCache_load (cache (snd (coreList E this q t))) k = Some r
        \<and> ACLCache_load (cache (snd (boardList E this t))) k = Some r
        \<and> ACLCache_load (cache (snd (executeCommand E this c args extra t))) k = Some r)
   \<and> ACLCache_load (cache (snd (coreUpdateIndex E this t))) k = None"
proof -
  have core_miss: "fst (coreList E this p s) = Inr r
        \<and> ACLCache_load (cache (snd (coreList E this p s)))
             (ACLCache_getCacheId ''coreList'' [p]) = Some r"
    if "ACLCache_load (cache s) (ACLCache_getCacheId ''coreList'' [p]) = None"
      and "fst (executeCommand E this ''core'' [''list'', p] FORMAT_JSON s) = Inr r"
    using that
    by (cases "executeCommand E this ''core'' [''list'', p] FORMAT_JSON s")
       (simp add: coreList_miss ACLCache_load_def ACLCache_write_def)
  have board_miss: "fst (boardList E this s) = Inr r
        \<and> ACLCache_load (cache (snd (boardList E this s)))
             (ACLCache_getCacheId ''boardList'' []) = Some r"
    if "ACLCache_load (cache s) (ACLCache_getCacheId ''boardList'' []) = None"
      and "fst (executeCommand E this ''board'' [''list''] FORMAT_JSON s) = Inr r"
    using that
    by (cases "executeCommand E this ''board'' [''list''] FORMAT_JSON s")
       (simp add: boardList_miss ACLCache_load_def ACLCache_write_def)
  have cleared: "ACLCache_load (cache (snd (coreUpdateIndex E this t))) k = None"
    by (simp add: coreUpdateIndex_clears ACLCache_load_def)
  from core_miss board_miss cleared show ?thesis
    by (simp add: coreList_hit boardList_hit coreList_keeps_entries boardList_keeps_entries
        executeCommand_keeps_entries)
qed

text \<open>
  The statement at \<open>boardList\<close> on the concrete installation, where the program fails:
  the failed result is stored, and the next call returns it from the cache.
\<close>

theorem failed_results_are_cached_witness:
  "ACLCache_load (cache initial_sys) (ACLCache_getCacheId ''boardList'' []) = None
   \<and> fst (executeCommand demo_env demo_client ''board'' [''list''] FORMAT_JSON initial_sys)
       = Inr \<lparr> status = False, data = None, reason = ''Error: no boards'' \<rparr>
   \<and> ACLCache_load (cache (snd (boardList demo_env demo_client initial_sys)))
         (ACLCache_getCacheId ''boardList'' [])
       = Some \<lparr> status = False, data = None, reason = ''Error: no boards'' \<rparr>
   \<and> boardList demo_env demo_client (snd (boardList demo_env demo_client initial_sys))
       = (Inr \<lparr> status = False, data = None, reason = ''Error: no boards'' \<rparr>,
          snd (boardList demo_env demo_client initial_sys))"
proof -
  let ?r = "\<lparr> status = False, data = None, reason = ''Error: no boards'' \<rparr>"
  have miss: "ACLCache_load (cache initial_sys) (ACLCache_getCacheId ''boardList'' []) = None"
    by (simp add: ACLCache_load_def initial_sys_def)
  from failed_results_are_cached
         [of initial_sys _ demo_env demo_client ?r "snd (boardList demo_env demo_client initial_sys)"]
       miss demo_board_list_exec
  have stored: "ACLCache_load (cache (snd (boardList demo_env demo_client initial_sys)))
         (ACLCache_getCacheId ''boardList'' []) = Some ?r"
    by blast
  from failed_results_are_cached
         [of _ _ demo_env demo_client ?r "snd (boardList demo_env demo_client initial_sys)"]
       stored
  have "boardList demo_env demo_client (snd (boardList demo_env demo_client initial_sys))
       = (Inr ?r, snd (boardList demo_env demo_client initial_sys))"
    by blast
  with miss demo_board_list_exec stored show ?thesis by blast
qed

text \<open>
  Claim C8, as amended. When no executable is set (\<open>arduinCliBin\<close> is \<open>undefined\<close> or
  the empty string), \<open>executeCommand\<close> returns the result \<open>not_informed\<close> and leaves the
  state as it is, and so do the wrappers that only pass their arguments on:
  \<open>configInitDir\<close>, \<open>configInitFile\<close>, \<open>coreDownload\<close> and \<open>coreInstall\<close>;
  \<open>coreUpdateIndex\<close> returns it after clearing the cache. \<open>coreList\<close> and \<open>boardList\<close>
  return it when the cache has no entry for their command signature, and then store it
  under that signature; when the cache has an entry, they return the entry. None of
  them starts a subprocess.
\<close>

theorem not_informed_without_executable:
  assumes "\<not> truthy_string (arduinCliBin (runOptions this))"
  shows "executeCommand E this c args extra s = (Inr not_informed, s)
       \<and> configInitDir E this dir s = (Inr not_informed, s)
       \<and> configInitFile E this dest s = (Inr not_informed, s)
       \<and> coreDownload E this s = (Inr not_informed, s)
       \<and> coreInstall E this plat ver s = (Inr not_informed, s)
       \<and> coreUpdateIndex E this s = (Inr not_informed, s\<lparr>cache := Map.empty\<rparr>)
       \<and> coreList E this p s =
           (case cache s (''coreList'', [p]) of
              Some r \<Rightarrow> (Inr r, s)
            | None \<Rightarrow>
                (Inr not_informed,
                 s\<lparr>cache := (cache s)((''coreList'', [p]) \<mapsto> not_informed)\<rparr>))
       \<and> boardList E this s =
           (case cache s (''boardList'', []) of
              Some r \<Rightarrow> (Inr r, s)
            | None \<Rightarrow>
                (Inr not_informed,
                 s\<lparr>cache := (cache s)((''boardList'', []) \<mapsto> not_informed)\<rparr>))
       \<and> spawned (snd (coreList E this p s)) = spawned s
       \<and> spawned (snd (boardList E this s)) = spawned s"
  by (simp add: executeCommand_not_informed [OF assms] configInitDir_def configInitFile_def
      coreDownload_def coreInstall_def coreUpdateIndex_def coreList_def boardList_def
      ACLCache_getCacheId_def ACLCache_load_def ACLCache_write_def ACLCache_clear_def
      split: option.splits)

text \<open>
  The statement at the client of the second workspace, which has no executable.
\<close>

theorem not_informed_without_executable_witness:
  "\<not> truthy_string (arduinCliBin (runOptions bad_client))
   \<and> coreInstall demo_env bad_client ''arduino:avr'' ''1.8.3'' initial_sys
       = (Inr not_informed, initial_sys)
   \<and> fst (coreList demo_env bad_client ''x'' initial_sys) = Inr not_informed
   \<and> spawned (snd (coreList demo_env bad_client ''x'' initial_sys)) = []"
proof -
  have no_bin: "\<not> truthy_string (arduinCliBin (runOptions bad_client))"
    by (simp add: bad_client_eval truthy_string_def)
  from not_informed_without_executable [OF no_bin, of demo_env] no_bin
  show ?thesis by (simp add: initial_sys_def)
qed

text \<open>
  As it is written, claim C8 has \<open>coreList\<close> return \<open>not_informed\<close> whenever no
  executable is set. In the run \<open>demo_checked\<close> the platforms were listed while release
  0.19.3 was in use; then \<open>checkEnvironment\<close> looked for release 9.9.9, did not find it
  and left \<open>arduinCliBin\<close> undefined. \<open>coreList\<close> then returns the successful result
  that the cache holds.
\<close>

theorem not_informed_without_executable_counterexample:
  "arduinCliBin (runOptions (fst (snd demo_checked))) = None
   \<and> fst (coreList demo_env (fst (snd demo_checked)) ''x'' (snd (snd demo_checked)))
       = Inr \<lparr> status = True, data = Some (Data_json (JArr [])), reason = [] \<rparr>
   \<and> fst (coreList demo_env (fst (snd demo_checked)) ''x'' (snd (snd demo_checked)))
       \<noteq> Inr not_informed"
proof -
  have listed: "cache demo_sys_listed (''coreList'', [''x''])
      = Some \<lparr> status = True, data = Some (Data_json (JArr [])), reason = [] \<rparr>"
    by (simp add: demo_sys_listed_def demo_core_list)
  have hit: "fst (coreList demo_env (fst (snd demo_checked)) ''x'' (snd (snd demo_checked)))
      = Inr \<lparr> status = True, data = Some (Data_json (JArr [])), reason = [] \<rparr>"
    by (simp add: demo_checked_eval coreList_def ACLCache_getCacheId_def ACLCache_load_def
        listed)
  have bin: "arduinCliBin (runOptions (fst (snd demo_checked))) = None"
    by (simp add: demo_checked_eval)
  from hit bin show ?thesis by (simp add: not_informed_def)
qed

subsection \<open>Loading the configuration\<close>

text \<open>
  Claim C1, as amended. The getter loads while \<open>_config\<close> is falsy. When the path of
  the configuration file is unset (\<open>undefined\<close> or the empty string), or nothing exists
  at that path, it returns \<open>CONFIG_SERVER_DEFAULT\<close>. When the file exists and
  \<open>JSON.parse\<close> throws on its content, or the path cannot be read as a file, the
  exception is caught and nothing is loaded: the getter returns what \<open>_config\<close> held,
  which is \<open>undefined\<close> on a new client, and the client is unchanged. When the content
  parses, the getter returns the parsed value.
\<close>

theorem config_load_default_or_unloaded:
  assumes "\<not> truthy_json (u_config this)"
  shows "(\<not> truthy_string (configFile (runOptions this)) \<longrightarrow>
            fst (config E this) = Some (CONFIG_SERVER_DEFAULT E))
       \<and> (configFile (runOptions this) = Some cf \<and> \<not> existsSync E cf \<longrightarrow>
            fst (config E this) = Some (CONFIG_SERVER_DEFAULT E))
       \<and> (configFile (runOptions this) = Some cf \<and> cf \<noteq> [] \<and> files E cf = Some (File content)
            \<and> JSON_parse E content = None \<longrightarrow>
            config E this = (u_config this, this))
       \<and> (configFile (runOptions this) = Some cf \<and> cf \<noteq> [] \<and> files E cf = Some Directory \<longrightarrow>
            config E this = (u_config this, this))
       \<and> (configFile (runOptions this) = Some cf \<and> cf \<noteq> [] \<and> files E cf = Some (File content)
            \<and> JSON_parse E content = Some j \<longrightarrow>
            fst (config E this) = Some j)"
  using assms
  by (auto simp: config_def truthy_string_def existsSync_def readFileSync_def Let_def
      split: option.splits)

text \<open>
  The statement at the client of the second workspace, whose configuration file is not
  JSON, and at the same client without a path for the configuration file.
\<close>

theorem config_load_default_or_unloaded_witness:
  "\<not> truthy_json (u_config bad_client)
   \<and> configFile (runOptions bad_client) = Some ''/bad/.vscode/aclabarduino.json''
   \<and> files demo_env ''/bad/.vscode/aclabarduino.json'' = Some (File ''not json'')
   \<and> JSON_parse demo_env ''not json'' = None
   \<and> config demo_env bad_client = (None, bad_client)
   \<and> fst (config demo_env (bad_client\<lparr>runOptions := (runOptions bad_client)\<lparr>configFile := None\<rparr>\<rparr>))
       = Some (CONFIG_SERVER_DEFAULT demo_env)"
proof -
  have fresh: "\<not> truthy_json (u_config bad_client)"
    by (simp add: bad_client_eval truthy_json_def)
  have cf: "configFile (runOptions bad_client) = Some ''/bad/.vscode/aclabarduino.json''"
    by (simp add: bad_client_eval)
  have content: "files demo_env ''/bad/.vscode/aclabarduino.json'' = Some (File ''not json'')"
    by (simp add: demo_env_def demo_files_def)
  have parse: "JSON_parse demo_env ''not json'' = None"
    by (simp add: demo_env_def demo_JSON_parse_def)
  have none: "u_config bad_client = None"
    by (simp add: bad_client_eval)
  have fresh': "\<not> truthy_json
      (u_config (bad_client\<lparr>runOptions := (runOptions bad_client)\<lparr>configFile := None\<rparr>\<rparr>))"
    by (simp add: bad_client_eval truthy_json_def)
  from config_load_default_or_unloaded
         [OF fresh, where E = demo_env and cf = "''/bad/.vscode/aclabarduino.json''"
            and content = "''not json''"]
       config_load_default_or_unloaded [OF fresh', where E = demo_env]
       fresh cf content parse none
  show ?thesis by (simp add: truthy_string_def)
qed

text \<open>
  As it is written, claim C1 has the loaded configuration equal the defaults when the
  file exists and its content is malformed. For the second workspace the file exists,
  reads as \<open>not json\<close>, \<open>JSON.parse\<close> throws on it, and the getter returns
  \<open>undefined\<close>.
\<close>

theorem config_malformed_counterexample:
  "\<not> truthy_json (u_config bad_client)
   \<and> configFile (runOptions bad_client) = Some ''/bad/.vscode/aclabarduino.json''
   \<and> existsSync demo_env ''/bad/.vscode/aclabarduino.json''
   \<and> readFileSync demo_env ''/bad/.vscode/aclabarduino.json'' = Inr ''not json''
   \<and> JSON_parse demo_env ''not json'' = None
   \<and> fst (config demo_env bad_client) = None
   \<and> fst (config demo_env bad_client) \<noteq> Some (CONFIG_SERVER_DEFAULT demo_env)"
  by (simp add: bad_client_eval config_def truthy_json_def existsSync_def readFileSync_def
      demo_env_def demo_files_def demo_JSON_parse_def Let_def)

subsection \<open>The global arguments and the single client\<close>

text \<open>
  No method changes \<open>runArguments\<close> once the constructor has stored it. The constructor
  throws only the \<open>TypeError\<close> of \<open>path.join\<close>. \<open>instance\<close> constructs a client when
  none is recorded, and records it when the constructor completes; when one is recorded
  it returns that one.
\<close>

lemma config_runArguments: "runArguments (snd (config E this)) = runArguments this"
  by (simp add: config_def Let_def split: option.splits sum.splits)


lemma new_ArduinoCli_runArguments:
  "new_ArduinoCli E opts args = Inr obj \<Longrightarrow> runArguments obj = args"
proof -
  let ?obj = "\<lparr> runArguments = args, runOptions = opts, u_config = None \<rparr>"
  assume built: "new_ArduinoCli E opts args = Inr obj"
  have one: "runArguments (snd (config E ?obj)) = args"
    by (simp add: config_runArguments)
  have two: "runArguments (snd (config E (snd (config E ?obj)))) = args"
    by (simp add: config_runArguments)
  from built one two show ?thesis
    by (auto simp: new_ArduinoCli_def Let_def split_beta split: if_splits sum.splits)
qed




lemma checkEnvironment_runArguments:
  "runArguments (fst (snd (checkEnvironment E this release s))) = runArguments this"
  by (simp add: checkEnvironment_def Let_def split_beta split: option.splits sum.splits prod.splits)

lemma normalizeArguments_eq:
  "normalizeArguments E opts =
     (case configFile opts of
        Some cf \<Rightarrow>
          if cf \<noteq> []
          then [''--config-file'', path_join E [path_dirname E cf, ''arduino-cli.yaml'']]
          else []
      | None \<Rightarrow> [])
     @ (if debug opts
        then [''--log-file'', logFile_text (logFile opts), ''--log-level'', ''debug'']
        else [])
     @ (if verbose opts then [''--verbose''] else [])"
  by (simp add: normalizeArguments_def push_def Let_def split: option.splits)

lemma instance_built:
  assumes "u_instance st = None"
    and "new_ArduinoCli E
           (normalizeOptions E
              (case arg of None \<Rightarrow> u_initializationOptions st | Some a \<Rightarrow> Some a))
           (normalizeArguments E
              (normalizeOptions E
                 (case arg of None \<Rightarrow> u_initializationOptions st | Some a \<Rightarrow> Some a)))
         = Inr obj"
  shows "ArduinoCli_instance E arg st =
       (Inr (length (objects st)),
        \<lparr> objects = objects st @ [obj],
          u_instance = Some (length (objects st)),
          u_initializationOptions =
            (case arg of None \<Rightarrow> u_initializationOptions st | Some a \<Rightarrow> Some a),
          constructions = Suc (constructions st) \<rparr>)"
  using assms by (simp add: ArduinoCli_instance_def Let_def)

lemma instance_thrown:
  assumes "u_instance st = None"
    and "new_ArduinoCli E
           (normalizeOptions E
              (case arg of None \<Rightarrow> u_initializationOptions st | Some a \<Rightarrow> Some a))
           (normalizeArguments E
              (normalizeOptions E
                 (case arg of None \<Rightarrow> u_initializationOptions st | Some a \<Rightarrow> Some a)))
         = Inl e"
  shows "ArduinoCli_instance E arg st =
       (Inl e, st\<lparr>constructions := Suc (constructions st)\<rparr>)"
  using assms by (simp add: ArduinoCli_instance_def Let_def)


lemma instance_returned_runArguments:
  assumes "u_instance st = None" and "fst (ArduinoCli_instance E arg st) = Inr r"
  shows "runArguments (objects (snd (ArduinoCli_instance E arg st)) ! r)
           = normalizeArguments E
               (normalizeOptions E
                  (case arg of None \<Rightarrow> u_initializationOptions st | Some a \<Rightarrow> Some a))"
proof (cases "new_ArduinoCli E
           (normalizeOptions E
              (case arg of None \<Rightarrow> u_initializationOptions st | Some a \<Rightarrow> Some a))
           (normalizeArguments E
              (normalizeOptions E
                 (case arg of None \<Rightarrow> u_initializationOptions st | Some a \<Rightarrow> Some a)))")
  case (Inl e)
  with assms show ?thesis by (simp add: instance_thrown)
next
  case (Inr obj)
  with assms have "r = length (objects st)"
    by (simp add: instance_built)
  with assms Inr show ?thesis
    by (simp add: instance_built new_ArduinoCli_runArguments [OF Inr])
qed






text \<open>
  Claim C6. For every options value, the list that \<open>normalizeArguments\<close> builds is
  three segments in this order: \<open>--config-file\<close> followed by
  \<open>path.join(path.dirname(configFile), "arduino-cli.yaml")\<close>, present exactly when a
  configuration file is set (a string that is not empty); the four tokens
  \<open>--log-file\<close>, the text of \<open>logFile\<close>, \<open>--log-level\<close> and \<open>debug\<close>, present exactly
  when \<open>debug\<close> is true; and \<open>--verbose\<close>, present exactly when \<open>verbose\<close> is true.
  A client that \<open>instance\<close> constructs and returns holds this list, built from its
  normalized options; reading the configuration and \<open>checkEnvironment\<close> leave it as it
  is; and every subprocess that \<open>executeCommand\<close> starts is given the command, the
  arguments that are not empty, this list and the format arguments, in this order.
\<close>

theorem global_arguments_built_once_and_appended:
  "normalizeArguments E opts =
     (case configFile opts of
        Some cf \<Rightarrow>
          if cf \<noteq> []
          then [''--config-file'', path_join E [path_dirname E cf, ''arduino-cli.yaml'']]
          else []
      | None \<Rightarrow> [])
     @ (if debug opts
        then [''--log-file'', logFile_text (logFile opts), ''--log-level'', ''debug'']
        else [])
     @ (if verbose opts then [''--verbose''] else [])
   \<and> (u_instance st = None \<and> fst (ArduinoCli_instance E arg st) = Inr r \<longrightarrow>
        runArguments (objects (snd (ArduinoCli_instance E arg st)) ! r)
          = normalizeArguments E
              (normalizeOptions E
                 (case arg of None \<Rightarrow> u_initializationOptions st | Some a \<Rightarrow> Some a)))
   \<and> runArguments (snd (config E this)) = runArguments this
   \<and> runArguments (fst (snd (checkEnvironment E this release s))) = runArguments this
   \<and> (arduinCliBin (runOptions this) = Some bin \<and> bin \<noteq> [] \<longrightarrow>
        spawned (snd (executeCommand E this c args extra s))
          = spawned s
              @ [(bin, [c] @ filter (\<lambda>v. length v > 0) args @ runArguments this @ extra)])"
proof -
  have run: "spawned (snd (executeCommand E this c args extra s))
          = spawned s
              @ [(bin, [c] @ filter (\<lambda>v. length v > 0) args @ runArguments this @ extra)]"
    if "arduinCliBin (runOptions this) = Some bin" and "bin \<noteq> []"
    using that by (simp add: executeCommand_spawned)
  from instance_returned_runArguments [of st E arg r] run show ?thesis
    by (simp add: normalizeArguments_eq [symmetric] config_runArguments
        checkEnvironment_runArguments)
qed

text \<open>
  The statement at the first workspace of the concrete installation, with \<open>debug\<close> and
  \<open>verbose\<close> on: the seven tokens, and the parameters of a \<open>core list\<close>.
\<close>

theorem global_arguments_built_once_and_appended_witness:
  "u_instance initial_statics = None
   \<and> fst (ArduinoCli_instance demo_env (Some demo_options) initial_statics) = Inr 0
   \<and> runArguments (objects (snd (ArduinoCli_instance demo_env (Some demo_options)
                                    initial_statics)) ! 0)
       = [''--config-file'', ''/w/.vscode/arduino-cli.yaml'', ''--log-file'',
          ''/w/arduino-cli-w.log'', ''--log-level'', ''debug'', ''--verbose'']
   \<and> arduinCliBin (runOptions demo_client) = Some ''/home/u/.acl/arduino-cli/0.19.3/arduino-cli''
   \<and> spawned (snd (executeCommand demo_env demo_client ''core'' [''list'', []] FORMAT_JSON
                      initial_sys))
       = [(''/home/u/.acl/arduino-cli/0.19.3/arduino-cli'',
           [''core'', ''list'', ''--config-file'', ''/w/.vscode/arduino-cli.yaml'',
            ''--log-file'', ''/w/arduino-cli-w.log'', ''--log-level'', ''debug'',
            ''--verbose'', ''--format'', ''json''])]"
proof -
  have none: "u_instance initial_statics = None"
    by (simp add: initial_statics_def)
  have ret: "fst (ArduinoCli_instance demo_env (Some demo_options) initial_statics) = Inr 0"
    by (simp add: demo_instance)
  have ne: "''/home/u/.acl/arduino-cli/0.19.3/arduino-cli'' \<noteq> []" by simp
  note facts = global_arguments_built_once_and_appended
         [where E = demo_env and st = initial_statics and arg = "Some demo_options"
            and r = 0
            and this = demo_client and bin = "''/home/u/.acl/arduino-cli/0.19.3/arduino-cli''"
            and c = "''core''" and args = "[''list'', []]" and extra = FORMAT_JSON
            and s = initial_sys]
  from facts none ret
  have built: "runArguments (objects (snd (ArduinoCli_instance demo_env (Some demo_options)
                                    initial_statics)) ! 0)
      = normalizeArguments demo_env (normalizeOptions demo_env (Some demo_options))"
    by simp
  from facts demo_bin ne
  have run: "spawned (snd (executeCommand demo_env demo_client ''core'' [''list'', []]
                             FORMAT_JSON initial_sys))
      = spawned initial_sys
          @ [(''/home/u/.acl/arduino-cli/0.19.3/arduino-cli'',
              [''core''] @ filter (\<lambda>v. length v > 0) [''list'', []]
                @ runArguments demo_client @ FORMAT_JSON)]"
    by simp
  have args: "normalizeArguments demo_env (normalizeOptions demo_env (Some demo_options))
      = [''--config-file'', ''/w/.vscode/arduino-cli.yaml'', ''--log-file'',
         ''/w/arduino-cli-w.log'', ''--log-level'', ''debug'', ''--verbose'']"
    by (simp add: normalizeArguments_def normalizeOptions_def demo_options_def demo_env_def
        demo_dirname_def truthy_string_def push_def Let_def)
  from built run args none ret demo_bin show ?thesis
    by (simp add: demo_client_eval initial_sys_def FORMAT_JSON_def)
qed




end
